theory Spec2Isabelle
  imports Complex_Main
begin

section \<open>Values of the platform\<close>

text \<open>
  The two route modules (\<^verbatim>\<open>memo/route.ts\<close>, \<^verbatim>\<open>transfer-sol/route.ts\<close>) are request handlers
  over the JavaScript platform and two libraries (\<^verbatim>\<open>@solana/web3.js\<close>, \<^verbatim>\<open>@solana/actions\<close>).
  The handlers are embedded as HOL functions; what they call outside the repository is a
  parameter, collected in the record \<open>platform\<close> below, so every theorem holds for every
  behaviour of the libraries and of the network.

  Three things are left out. The calls of \<^verbatim>\<open>console.log\<close> and \<^verbatim>\<open>console.error\<close> have no effect on
  a response. The copy of \<^verbatim>\<open>checkForMessage\<close> in \<^verbatim>\<open>transfer-sol/route.ts\<close> is never called. And the
  URL of a request is taken as parsed: the framework hands the handlers an absolute http(s)
  URL, on which \<^verbatim>\<open>new URL\<close> does not throw.

  A JavaScript \<^verbatim>\<open>number\<close> is a double: not-a-number, an infinity, or a finite rational.
  Comparison of doubles is exact and is defined here; multiplication rounds and is a
  parameter of the platform. Timestamps are integers far below 2^53, on which the
  arithmetic of doubles is the arithmetic of integers.
\<close>

datatype number = NaN | NegInf | Fin rat | PosInf

text \<open>\<^verbatim>\<open>a < b\<close> and \<^verbatim>\<open>a <= b\<close> on numbers: false as soon as one side is NaN.\<close>

fun num_less :: "number \<Rightarrow> number \<Rightarrow> bool" where
  "num_less NaN b = False"
| "num_less a NaN = False"
| "num_less a NegInf = False"
| "num_less NegInf b = True"
| "num_less PosInf b = False"
| "num_less (Fin x) PosInf = True"
| "num_less (Fin x) (Fin y) = (x < y)"

fun num_le :: "number \<Rightarrow> number \<Rightarrow> bool" where
  "num_le NaN b = False"
| "num_le a NaN = False"
| "num_le NegInf b = True"
| "num_le a PosInf = True"
| "num_le a NegInf = False"
| "num_le PosInf b = False"
| "num_le (Fin x) (Fin y) = (x \<le> y)"

text \<open>
  A thrown value. The handlers' \<^verbatim>\<open>catch\<close> blocks test \<^verbatim>\<open>typeof err == "string"\<close>, so a thrown
  string is kept apart from every other thrown value (the \<^verbatim>\<open>Error\<close> objects of the
  libraries, carried here by their message).
\<close>

datatype thrown = ThrownString string | ThrownError string

text \<open>A \<^verbatim>\<open>PublicKey\<close> object, by the 256-bit number it wraps.\<close>

datatype pubkey = PubKey nat

text \<open>
  One entry of \<^verbatim>\<open>getSignaturesForAddress\<close>: \<^verbatim>\<open>{signature, blockTime?}\<close>, the time in seconds
  since the epoch, \<open>None\<close> when it is null or missing.
\<close>

record sig_info =
  signature :: string
  blockTime :: "int option"

text \<open>The options object passed to \<^verbatim>\<open>getSignaturesForAddress\<close>.\<close>

record sig_opts =
  limit :: nat
  before :: "string option"
  until :: string

text \<open>
  One entry of \<^verbatim>\<open>getParsedTransactions\<close>: the entry, its \<^verbatim>\<open>meta\<close> and the \<^verbatim>\<open>logMessages\<close> of the
  meta may each be null.
\<close>

datatype tx_meta = Meta (logMessages: "string list option")

datatype parsed_tx = ParsedTx (meta: "tx_meta option")

text \<open>
  Instructions, by the library call that builds them:
  \<^verbatim>\<open>ComputeBudgetProgram.setComputeUnitPrice({microLamports})\<close>,
  \<^verbatim>\<open>new TransactionInstruction({programId, data, keys})\<close> and
  \<^verbatim>\<open>SystemProgram.transfer({fromPubkey, toPubkey, lamports})\<close>. A draft is a
  \<^verbatim>\<open>Transaction\<close> object: its instructions in order, its fee payer and its recent blockhash.
\<close>

datatype instruction =
    SetComputeUnitPrice nat
  | TransactionInstruction pubkey string "pubkey list"
  | SystemTransfer pubkey pubkey number

record Transaction =
  instructions :: "instruction list"
  feePayer :: "pubkey option"
  recentBlockhash :: "string option"

text \<open>
  The platform: constructors and methods of the libraries, the clock and the RPC node.
  An RPC method takes the state \<open>'w\<close> of the world (the node, the network) and returns
  either the message of the error it throws or its result, and the next state.
  \<open>PublicKey_new\<close> is \<^verbatim>\<open>new PublicKey(s)\<close>, \<open>None\<close> when the constructor throws.
  The three fields named \<open>_throws\<close> give the message of the error that a library call
  throws, if it throws: \<^verbatim>\<open>new Connection(endpoint)\<close> for the endpoint of the deployment,
  \<^verbatim>\<open>SystemProgram.transfer\<close> for an amount of lamports, and \<^verbatim>\<open>createPostResponse\<close> for a draft
  and a message. The last three fields are the constants that the handlers import from the
  libraries.
\<close>

record 'w platform =
  PublicKey_new :: "string \<Rightarrow> pubkey option"
  toBase58 :: "pubkey \<Rightarrow> string"
  parseFloat :: "string \<Rightarrow> number"
  times :: "number \<Rightarrow> number \<Rightarrow> number"
  number_toString :: "number \<Rightarrow> string"
  Date_now :: "'w \<Rightarrow> int"
  toISOString :: "int \<Rightarrow> string"
  getSignaturesForAddress :: "pubkey \<Rightarrow> sig_opts \<Rightarrow> 'w \<Rightarrow> (string + sig_info list) \<times> 'w"
  getParsedTransactions :: "string list \<Rightarrow> 'w \<Rightarrow> (string + parsed_tx option list) \<times> 'w"
  getLatestBlockhash :: "'w \<Rightarrow> (string + string) \<times> 'w"
  getMinimumBalanceForRentExemption :: "nat \<Rightarrow> 'w \<Rightarrow> (string + number) \<times> 'w"
  Connection_throws :: "string option"
  SystemProgram_transfer_throws :: "number \<Rightarrow> string option"
  createPostResponse_throws :: "Transaction \<Rightarrow> string \<Rightarrow> string option"
  LAMPORTS_PER_SOL :: number
  MEMO_PROGRAM_ID :: string
  ACTIONS_CORS_HEADERS :: "(string \<times> string) list"

section \<open>The History Scanner: \<^verbatim>\<open>checkForMessage\<close> of \<^verbatim>\<open>memo/route.ts\<close>\<close>

text \<open>\<^verbatim>\<open>log.includes(message)\<close>: \<open>message\<close> occurs in \<open>log\<close> as a substring.\<close>

fun str_includes :: "string \<Rightarrow> string \<Rightarrow> bool" where
  "str_includes [] message = (message = [])"
| "str_includes (c # cs) message =
     (take (length message) (c # cs) = message \<or> str_includes cs message)"

text \<open>\<^verbatim>\<open>tx?.meta?.logMessages?.some(log => log.includes(message))\<close>, undefined read as false.\<close>

definition tx_has_log :: "string \<Rightarrow> parsed_tx option \<Rightarrow> bool" where
  "tx_has_log message tx =
     (case tx of
        None \<Rightarrow> False
      | Some t \<Rightarrow>
          (case meta t of
             None \<Rightarrow> False
           | Some m \<Rightarrow>
               (case logMessages m of
                  None \<Rightarrow> False
                | Some logs \<Rightarrow> list_ex (\<lambda>log. str_includes log message) logs)))"

text \<open>\<^verbatim>\<open>(blockTime ?? 0) * 1000\<close>: the timestamp of an entry in milliseconds, 0 when missing.\<close>

definition blockTime_ms :: "sig_info \<Rightarrow> int" where
  "blockTime_ms sig = (case blockTime sig of None \<Rightarrow> 0 | Some t \<Rightarrow> t) * 1000"

text \<open>
  The paging loop \<^verbatim>\<open>while (true)\<close> (lines 38 to 51). It has no bound of its own: it ends
  when the node returns an empty page, a page whose last entry is older than the window,
  or an error. \<open>None\<close> is the loop that never ends.
\<close>

partial_function (option) fetchSignatures ::
  "'w platform \<Rightarrow> pubkey \<Rightarrow> int \<Rightarrow> string list \<Rightarrow> string option \<Rightarrow> 'w
     \<Rightarrow> ((thrown + string list) \<times> 'w) option" where
  "fetchSignatures rt publicKey twentyFourHoursAgo allSignatures lastSignature w =
     (case getSignaturesForAddress rt publicKey
             \<lparr>limit = 100, before = lastSignature, until = toISOString rt twentyFourHoursAgo\<rparr> w of
        (Inl e, w') \<Rightarrow> Some (Inl (ThrownError e), w')
      | (Inr signatures, w') \<Rightarrow>
          if signatures = [] then Some (Inr allSignatures, w')
          else if blockTime_ms (last signatures) < twentyFourHoursAgo
          then Some (Inr (allSignatures @ map signature signatures), w')
          else fetchSignatures rt publicKey twentyFourHoursAgo
                 (allSignatures @ map signature signatures)
                 (Some (signature (last signatures))) w')"

declare fetchSignatures.simps [code]

text \<open>
  The batch loop \<^verbatim>\<open>for (let i = 0; i < allSignatures.length; i += batchSize)\<close> (lines 54 to
  63); \<^verbatim>\<open>slice(i, i + batchSize)\<close> is \<open>take batchSize (drop i allSignatures)\<close>. With
  \<open>batchSize = 0\<close> the index never advances.
\<close>

partial_function (option) scanBatches ::
  "'w platform \<Rightarrow> string list \<Rightarrow> string \<Rightarrow> nat \<Rightarrow> nat \<Rightarrow> 'w
     \<Rightarrow> ((thrown + bool) \<times> 'w) option" where
  "scanBatches rt allSignatures message batchSize i w =
     (if i < length allSignatures
      then (case getParsedTransactions rt (take batchSize (drop i allSignatures)) w of
              (Inl e, w') \<Rightarrow> Some (Inl (ThrownError e), w')
            | (Inr transactions, w') \<Rightarrow>
                if list_ex (tx_has_log message) transactions then Some (Inr True, w')
                else scanBatches rt allSignatures message batchSize (i + batchSize) w')
      else Some (Inr False, w))"

declare scanBatches.simps [code]

text \<open>
  \<^verbatim>\<open>checkForMessage(connection, accountPublicKey, message, batchSize = 100)\<close>. The \<^verbatim>\<open>catch\<close>
  block logs and rethrows, so every error leaves the function as it was thrown. The text of
  the error thrown by \<^verbatim>\<open>new PublicKey\<close> is the library's; it is only logged, by this \<^verbatim>\<open>catch\<close>
  block and by that of the handler, and no response depends on it, so one fixed text stands
  for it.
\<close>

definition checkForMessage ::
  "'w platform \<Rightarrow> string \<Rightarrow> string \<Rightarrow> nat \<Rightarrow> 'w \<Rightarrow> ((thrown + bool) \<times> 'w) option" where
  "checkForMessage rt accountPublicKey message batchSize w =
     (case PublicKey_new rt accountPublicKey of
        None \<Rightarrow> Some (Inl (ThrownError ''Invalid public key input''), w)
      | Some publicKey \<Rightarrow>
          (case fetchSignatures rt publicKey (Date_now rt w - 24 * 60 * 60 * 1000) [] None w of
             None \<Rightarrow> None
           | Some (Inl e, w') \<Rightarrow> Some (Inl e, w')
           | Some (Inr allSignatures, w') \<Rightarrow> scanBatches rt allSignatures message batchSize 0 w'))"

section \<open>Requests, responses and transaction drafts\<close>

text \<open>
  A request, as the handlers read it: the parsed \<^verbatim>\<open>new URL(req.url)\<close> with its origin, path
  and query pairs in order, and the result of \<^verbatim>\<open>await req.json()\<close>, which throws on a body
  that is not JSON and otherwise gives the \<^verbatim>\<open>account\<close> string of an \<^verbatim>\<open>ActionPostRequest\<close>.
\<close>

record URL =
  origin :: string
  pathname :: string
  searchParams :: "(string \<times> string) list"

datatype json_body = NotJson | Json string

record request =
  url :: URL
  json :: json_body

text \<open>\<^verbatim>\<open>searchParams.get(name)\<close>: the first value of the name, null when there is none.\<close>

definition searchParams_get :: "URL \<Rightarrow> string \<Rightarrow> string option" where
  "searchParams_get u name = map_of (searchParams u) name"

text \<open>
  \<^verbatim>\<open>new URL(path, origin).toString()\<close> for the origin of an http(s) request and an absolute
  path: the origin followed by the path.
\<close>

definition URL_toString :: "string \<Rightarrow> string \<Rightarrow> string" where
  "URL_toString path base = base @ path"

record ActionParameter =
  param_name :: string
  param_label :: string
  required :: bool

record LinkedAction =
  action_label :: string
  href :: string
  parameters :: "ActionParameter list option"

record ActionGetResponse =
  title :: string
  icon :: string
  description :: string
  label :: string
  links :: "LinkedAction list option"

record ActionPostResponse =
  transaction :: Transaction
  message :: string

datatype body = Text string | GetJson ActionGetResponse | PostJson ActionPostResponse

record response =
  status :: nat
  headers :: "(string \<times> string) list"
  body :: body

text \<open>\<^verbatim>\<open>Response.json(payload, {headers: ACTIONS_CORS_HEADERS})\<close>.\<close>

definition Response_json :: "'w platform \<Rightarrow> body \<Rightarrow> response" where
  "Response_json rt payload = \<lparr>status = 200, headers = ACTIONS_CORS_HEADERS rt, body = payload\<rparr>"

text \<open>\<^verbatim>\<open>new Response(message, {status: 400, headers: ACTIONS_CORS_HEADERS})\<close>.\<close>

definition Response_400 :: "'w platform \<Rightarrow> string \<Rightarrow> response" where
  "Response_400 rt msg = \<lparr>status = 400, headers = ACTIONS_CORS_HEADERS rt, body = Text msg\<rparr>"

text \<open>
  The \<^verbatim>\<open>catch (err)\<close> block at the end of the handlers: a thrown string is the text of the
  response, anything else is reported as unknown.
\<close>

definition catch_response :: "'w platform \<Rightarrow> thrown \<Rightarrow> response" where
  "catch_response rt err =
     Response_400 rt (case err of ThrownString s \<Rightarrow> s | ThrownError m \<Rightarrow> ''An unknown error occurred'')"

text \<open>
  \<^verbatim>\<open>createPostResponse({fields: {transaction, message}})\<close> of \<^verbatim>\<open>@solana/actions\<close>: it throws,
  or it returns the payload \<^verbatim>\<open>{transaction, message}\<close> whose transaction is the base64 text
  of the serialised draft. That text is represented by the draft it encodes.
\<close>

definition createPostResponse ::
  "'w platform \<Rightarrow> Transaction \<Rightarrow> string \<Rightarrow> thrown + ActionPostResponse" where
  "createPostResponse rt tx msg =
     (case createPostResponse_throws rt tx msg of
        Some e \<Rightarrow> Inl (ThrownError e)
      | None \<Rightarrow> Inr \<lparr>transaction = tx, message = msg\<rparr>)"

text \<open>
  The end of the two \<^verbatim>\<open>POST\<close> handlers: the draft and the message are handed to
  \<^verbatim>\<open>createPostResponse\<close>, and the payload is the response; a throw is taken by the \<^verbatim>\<open>catch\<close>
  block.
\<close>

definition post_response :: "'w platform \<Rightarrow> Transaction \<times> string \<Rightarrow> response" where
  "post_response rt handed =
     (case createPostResponse rt (fst handed) (snd handed) of
        Inl err \<Rightarrow> catch_response rt err
      | Inr payload \<Rightarrow> Response_json rt (PostJson payload))"

section \<open>The Memo provider: \<^verbatim>\<open>memo/route.ts\<close>\<close>

text \<open>The text \<^verbatim>\<open>Invalid "account" provided\<close>, with its two double quotes.\<close>

definition Invalid_account_provided :: string where
  \<open>Invalid_account_provided = ''Invalid "account" provided''\<close>

definition GET_memo :: "'w platform \<Rightarrow> request \<Rightarrow> response" where
  "GET_memo rt req =
     Response_json rt (GetJson
       \<lparr>title = ''Actions Example - Simple On-chain Memo'',
        icon = URL_toString ''/bun_blink.webp'' (origin (url req)),
        description = ''Send a message on-chain using a Memo'',
        label = ''Send Memo'',
        links = None\<rparr>)"

definition OPTIONS_memo :: "'w platform \<Rightarrow> request \<Rightarrow> response" where
  "OPTIONS_memo = GET_memo"

text \<open>
  Lines 121 to 128: the payload chosen from the outcome of the scan, the inner \<^verbatim>\<open>catch\<close>
  taking the place of a thrown error.
\<close>

definition messageResult :: "thrown + bool \<Rightarrow> string" where
  "messageResult scan =
     (case scan of
        Inr found \<Rightarrow> if found then ''second message'' else ''initial message''
      | Inl error \<Rightarrow> ''initial message'')"

text \<open>
  \<^verbatim>\<open>POST\<close> of the Memo provider, up to the call of \<^verbatim>\<open>createPostResponse\<close> (lines 98 to 149).
  The outcome is a response, of an early return or of the \<^verbatim>\<open>catch\<close> block, or the draft
  and the message that are handed to \<^verbatim>\<open>createPostResponse\<close>. \<open>None\<close> is the request whose scan
  never ends.
\<close>

definition POST_memo_fields ::
  "'w platform \<Rightarrow> request \<Rightarrow> 'w \<Rightarrow> (response + Transaction \<times> string) option" where
  "POST_memo_fields rt req w =
     (case json req of
        NotJson \<Rightarrow> Some (Inl (catch_response rt (ThrownError ''Unexpected token'')))
      | Json acct \<Rightarrow>
          (case PublicKey_new rt acct of
             None \<Rightarrow> Some (Inl (Response_400 rt Invalid_account_provided))
           | Some account \<Rightarrow>
               (case Connection_throws rt of
                  Some e \<Rightarrow> Some (Inl (catch_response rt (ThrownError e)))
                | None \<Rightarrow>
                    (case checkForMessage rt ''YOUR_ACCOUNT_OR_PROGRAM_PUBLIC_KEY''
                            ''initial message'' 100 w of
                       None \<Rightarrow> None
                     | Some (scan, w1) \<Rightarrow>
                         (case PublicKey_new rt (MEMO_PROGRAM_ID rt) of
                            None \<Rightarrow>
                              Some (Inl (catch_response rt (ThrownError ''Invalid public key input'')))
                          | Some programId \<Rightarrow>
                              (case getLatestBlockhash rt w1 of
                                 (Inl e, w2) \<Rightarrow> Some (Inl (catch_response rt (ThrownError e)))
                               | (Inr blockhash, w2) \<Rightarrow>
                                   Some (Inr
                                     (\<lparr>instructions =
                                         [SetComputeUnitPrice 1000,
                                          TransactionInstruction programId (messageResult scan) []],
                                       feePayer = Some account,
                                       recentBlockhash = Some blockhash\<rparr>,
                                      ''Post this memo on-chain''))))))))"

text \<open>\<^verbatim>\<open>POST\<close> of the Memo provider.\<close>

definition POST_memo :: "'w platform \<Rightarrow> request \<Rightarrow> 'w \<Rightarrow> response option" where
  "POST_memo rt req w =
     (case POST_memo_fields rt req w of
        None \<Rightarrow> None
      | Some (Inl r) \<Rightarrow> Some r
      | Some (Inr handed) \<Rightarrow> Some (post_response rt handed))"

section \<open>The Transfer provider: \<^verbatim>\<open>transfer-sol/const.ts\<close> and \<^verbatim>\<open>transfer-sol/route.ts\<close>\<close>

text \<open>
  \<^verbatim>\<open>const.ts\<close> is evaluated once, when the module is loaded: \<open>DEFAULT_SOL_ADDRESS\<close> is the key
  \<^verbatim>\<open>new PublicKey\<close> builds from the literal, and there is no module and no handler when that
  throws. The handlers below take the key that was built as their argument \<open>dflt\<close>.
  \<open>DEFAULT_SOL_AMOUNT\<close> is the double written \<^verbatim>\<open>0.1\<close>, which is 3602879701896397 / 2^55.
\<close>

definition DEFAULT_SOL_ADDRESS :: "'w platform \<Rightarrow> pubkey option" where
  "DEFAULT_SOL_ADDRESS rt = PublicKey_new rt ''AEzZqXyPxWJrjrauScDWMyewnWhv6XwmwqGdXD5vDVd4''"

definition DEFAULT_SOL_AMOUNT :: number where
  "DEFAULT_SOL_AMOUNT = Fin (3602879701896397 / 36028797018963968)"

record query_params =
  amount :: number
  toPubkey :: pubkey

text \<open>
  \<^verbatim>\<open>validatedQueryParams(requestUrl)\<close>. A query value counts when it is truthy, that is
  present and not the empty string. \<^verbatim>\<open>parseFloat\<close> does not throw: the second \<^verbatim>\<open>try\<close> block is
  left through its \<^verbatim>\<open>catch\<close> only by the string thrown on \<^verbatim>\<open>amount <= 0\<close>.
\<close>

definition validatedQueryParams :: "'w platform \<Rightarrow> pubkey \<Rightarrow> URL \<Rightarrow> thrown + query_params" where
  "validatedQueryParams rt dflt requestUrl =
     (case (case searchParams_get requestUrl ''to'' of
              None \<Rightarrow> Some dflt
            | Some to \<Rightarrow> if to = [] then Some dflt else PublicKey_new rt to) of
        None \<Rightarrow> Inl (ThrownString ''Invalid input query parameter: to'')
      | Some toPubkey' \<Rightarrow>
          (let amount' =
                 (case searchParams_get requestUrl ''amount'' of
                    None \<Rightarrow> DEFAULT_SOL_AMOUNT
                  | Some a \<Rightarrow> if a = [] then DEFAULT_SOL_AMOUNT else parseFloat rt a)
           in if num_le amount' (Fin 0)
              then Inl (ThrownString ''Invalid input query parameter: amount'')
              else Inr \<lparr>amount = amount', toPubkey = toPubkey'\<rparr>))"

definition GET_transfer :: "'w platform \<Rightarrow> pubkey \<Rightarrow> request \<Rightarrow> response" where
  "GET_transfer rt dflt req =
     (case validatedQueryParams rt dflt (url req) of
        Inl err \<Rightarrow> catch_response rt err
      | Inr q \<Rightarrow>
          (let baseHref =
                 URL_toString (''/api/actions/transfer-sol?to='' @ toBase58 rt (toPubkey q))
                   (origin (url req))
           in Response_json rt (GetJson
                \<lparr>title = ''Actions Example - Transfer Native SOL'',
                 icon = URL_toString ''/bun_blink.webp'' (origin (url req)),
                 description = ''Transfer SOL to another Solana wallet'',
                 label = ''Transfer'',
                 links = Some
                   [\<lparr>action_label = ''Send 1 SOL'', href = baseHref @ ''&amount=1'',
                     parameters = None\<rparr>,
                    \<lparr>action_label = ''Send 5 SOL'', href = baseHref @ ''&amount=5'',
                     parameters = None\<rparr>,
                    \<lparr>action_label = ''Send 10 SOL'', href = baseHref @ ''&amount=10'',
                     parameters = None\<rparr>,
                    \<lparr>action_label = ''Send SOL'', href = baseHref @ ''&amount={amount}'',
                     parameters = Some
                       [\<lparr>param_name = ''amount'',
                         param_label = ''Enter the amount of SOL to send'',
                         required = True\<rparr>]\<rparr>]\<rparr>)))"

definition OPTIONS_transfer :: "'w platform \<Rightarrow> pubkey \<Rightarrow> request \<Rightarrow> response" where
  "OPTIONS_transfer = GET_transfer"

text \<open>
  \<^verbatim>\<open>POST\<close> of the Transfer provider, up to the call of \<^verbatim>\<open>createPostResponse\<close> (lines 139 to
  184). Its steps, in the order of the source: the query, the body, the account, the
  connection, the minimum balance, the rent check, the transfer instruction, the
  blockhash. The outcome is a response or the draft and the message that are handed to
  \<^verbatim>\<open>createPostResponse\<close>.
\<close>

definition POST_transfer_fields ::
  "'w platform \<Rightarrow> pubkey \<Rightarrow> request \<Rightarrow> 'w \<Rightarrow> response + Transaction \<times> string" where
  "POST_transfer_fields rt dflt req w =
     (case validatedQueryParams rt dflt (url req) of
        Inl err \<Rightarrow> Inl (catch_response rt err)
      | Inr q \<Rightarrow>
          (case json req of
             NotJson \<Rightarrow> Inl (catch_response rt (ThrownError ''Unexpected token''))
           | Json acct \<Rightarrow>
               (case PublicKey_new rt acct of
                  None \<Rightarrow> Inl (Response_400 rt Invalid_account_provided)
                | Some account \<Rightarrow>
                    (case Connection_throws rt of
                       Some e \<Rightarrow> Inl (catch_response rt (ThrownError e))
                     | None \<Rightarrow>
                         (case getMinimumBalanceForRentExemption rt 0 w of
                            (Inl e, w1) \<Rightarrow> Inl (catch_response rt (ThrownError e))
                          | (Inr minimumBalance, w1) \<Rightarrow>
                              if num_less (times rt (amount q) (LAMPORTS_PER_SOL rt)) minimumBalance
                              then Inl (catch_response rt (ThrownString
                                     (''account may not be rent exempt: ''
                                        @ toBase58 rt (toPubkey q))))
                              else
                                (case SystemProgram_transfer_throws rt
                                        (times rt (amount q) (LAMPORTS_PER_SOL rt)) of
                                   Some e \<Rightarrow> Inl (catch_response rt (ThrownError e))
                                 | None \<Rightarrow>
                                     (case getLatestBlockhash rt w1 of
                                        (Inl e, w2) \<Rightarrow> Inl (catch_response rt (ThrownError e))
                                      | (Inr blockhash, w2) \<Rightarrow>
                                          Inr
                                            (\<lparr>instructions =
                                                [SystemTransfer account (toPubkey q)
                                                   (times rt (amount q) (LAMPORTS_PER_SOL rt))],
                                              feePayer = Some account,
                                              recentBlockhash = Some blockhash\<rparr>,
                                             ''Send '' @ number_toString rt (amount q)
                                               @ '' SOL to '' @ toBase58 rt (toPubkey q)))))))))"

text \<open>\<^verbatim>\<open>POST\<close> of the Transfer provider.\<close>

definition POST_transfer :: "'w platform \<Rightarrow> pubkey \<Rightarrow> request \<Rightarrow> 'w \<Rightarrow> response" where
  "POST_transfer rt dflt req w =
     (case POST_transfer_fields rt dflt req w of
        Inl r \<Rightarrow> r
      | Inr handed \<Rightarrow> post_response rt handed)"

section \<open>A reference platform\<close>

text \<open>
  One platform on which the handlers can be run: simple stand-ins for the library functions
  and a node that serves a fixed script. It is an idealisation, not the libraries
  themselves: a key is the number its base58 text denotes, numbers are exact rationals
  printed in decimal, \<^verbatim>\<open>createPostResponse\<close> always returns, and the CORS headers are a
  single pair. It is used to evaluate the handlers at concrete requests; no theorem about
  all platforms depends on it.
\<close>

definition base58_alphabet :: string where
  "base58_alphabet = ''123456789ABCDEFGHJKLMNPQRSTUVWXYZabcdefghijkmnopqrstuvwxyz''"

fun index_of :: "char \<Rightarrow> string \<Rightarrow> nat option" where
  "index_of c [] = None"
| "index_of c (x # xs) = (if c = x then Some 0 else map_option Suc (index_of c xs))"

text \<open>The number a base58 text denotes, \<open>None\<close> on a character outside the alphabet.\<close>

fun base58_number :: "nat \<Rightarrow> string \<Rightarrow> nat option" where
  "base58_number acc [] = Some acc"
| "base58_number acc (c # cs) =
     (case index_of c base58_alphabet of
        None \<Rightarrow> None
      | Some d \<Rightarrow> base58_number (acc * 58 + d) cs)"

fun byte_length :: "nat \<Rightarrow> nat" where
  "byte_length n = (if n = 0 then 0 else Suc (byte_length (n div 256)))"

declare byte_length.simps [simp del]

text \<open>
  \<^verbatim>\<open>new PublicKey(s)\<close> for a string: the base58 decoding of \<open>s\<close> (one zero byte for each
  leading \<^verbatim>\<open>1\<close>, then the bytes of the number) must exist and be 32 bytes long.
\<close>

definition bs58_PublicKey :: "string \<Rightarrow> pubkey option" where
  "bs58_PublicKey s =
     (case base58_number 0 s of
        None \<Rightarrow> None
      | Some n \<Rightarrow>
          if length (takeWhile (\<lambda>c. c = CHR ''1'') s) + byte_length n = 32
          then Some (PubKey n) else None)"

fun base58_digits :: "nat \<Rightarrow> string" where
  "base58_digits n =
     (if n = 0 then [] else base58_digits (n div 58) @ [base58_alphabet ! (n mod 58)])"

declare base58_digits.simps [simp del]

definition bs58_toBase58 :: "pubkey \<Rightarrow> string" where
  "bs58_toBase58 k =
     (case k of PubKey n \<Rightarrow> replicate (32 - byte_length n) (CHR ''1'') @ base58_digits n)"

text \<open>
  \<^verbatim>\<open>parseFloat\<close> on decimal text: leading blanks, a sign, then \<^verbatim>\<open>Infinity\<close> or digits with an
  optional fraction; NaN when there is neither. The value is the exact one (the builtin
  rounds it to a double), and an exponent part is not read.
\<close>

definition is_digit :: "char \<Rightarrow> bool" where
  "is_digit c = List.member ''0123456789'' c"

fun digits_value :: "nat \<Rightarrow> string \<Rightarrow> nat" where
  "digits_value acc [] = acc"
| "digits_value acc (c # cs) =
     digits_value (acc * 10 + (case index_of c ''0123456789'' of None \<Rightarrow> 0 | Some d \<Rightarrow> d)) cs"

definition unsigned_literal :: "string \<Rightarrow> number" where
  "unsigned_literal s =
     (if take 8 s = ''Infinity'' then PosInf
      else
        (let ip = takeWhile is_digit s;
             r = dropWhile is_digit s;
             fp = (case r of [] \<Rightarrow> [] | c # cs \<Rightarrow> if c = CHR ''.'' then takeWhile is_digit cs else [])
         in if ip = [] \<and> fp = [] then NaN
            else Fin (of_nat (digits_value 0 ip) + of_nat (digits_value 0 fp) / 10 ^ length fp)))"

definition negate :: "number \<Rightarrow> number" where
  "negate x = (case x of NaN \<Rightarrow> NaN | NegInf \<Rightarrow> PosInf | Fin q \<Rightarrow> Fin (- q) | PosInf \<Rightarrow> NegInf)"

definition dec_parseFloat :: "string \<Rightarrow> number" where
  "dec_parseFloat s =
     (case dropWhile (\<lambda>c. c = CHR '' '') s of
        [] \<Rightarrow> NaN
      | c # cs \<Rightarrow>
          if c = CHR ''-'' then negate (unsigned_literal cs)
          else if c = CHR ''+'' then unsigned_literal cs
          else unsigned_literal (c # cs))"

text \<open>The product of two numbers, exact on finite ones (the builtin rounds it to a double).\<close>

definition sign_of :: "number \<Rightarrow> int" where
  "sign_of x =
     (case x of NaN \<Rightarrow> 0 | NegInf \<Rightarrow> - 1 | PosInf \<Rightarrow> 1
      | Fin q \<Rightarrow> if q < 0 then - 1 else if q = 0 then 0 else 1)"

definition exact_times :: "number \<Rightarrow> number \<Rightarrow> number" where
  "exact_times x y =
     (case (x, y) of
        (Fin a, Fin b) \<Rightarrow> Fin (a * b)
      | (NaN, b) \<Rightarrow> NaN
      | (a, NaN) \<Rightarrow> NaN
      | (a, b) \<Rightarrow>
          if sign_of a * sign_of b = 0 then NaN
          else if sign_of a * sign_of b < 0 then NegInf else PosInf)"

text \<open>
  \<^verbatim>\<open>BigInt(lamports)\<close> inside \<^verbatim>\<open>SystemProgram.transfer\<close>: a RangeError unless the number is an
  integer.
\<close>

definition BigInt_rejects :: "number \<Rightarrow> string option" where
  "BigInt_rejects x =
     (case x of
        Fin q \<Rightarrow> if snd (quotient_of q) = 1 then None else Some ''RangeError''
      | NaN \<Rightarrow> Some ''RangeError''
      | NegInf \<Rightarrow> Some ''RangeError''
      | PosInf \<Rightarrow> Some ''RangeError'')"

text \<open>
  \<^verbatim>\<open>String(x)\<close> in a template: the decimal text of the number, with at most 20 digits of its
  fraction (the builtin prints the shortest text that reads back as the same double, and
  an exponent for a number below 1e-6 or from 1e21 on).
\<close>

fun nat_digits :: "nat \<Rightarrow> string" where
  "nat_digits n =
     (if n < 10 then [''0123456789'' ! n] else nat_digits (n div 10) @ [''0123456789'' ! (n mod 10)])"

declare nat_digits.simps [simp del]

fun fraction_digits :: "nat \<Rightarrow> rat \<Rightarrow> string" where
  "fraction_digits 0 r = []"
| "fraction_digits (Suc n) r =
     (if r = 0 then []
      else (''0123456789'' ! nat \<lfloor>r * 10\<rfloor>) # fraction_digits n (r * 10 - of_int \<lfloor>r * 10\<rfloor>))"

definition dec_toString :: "number \<Rightarrow> string" where
  "dec_toString x =
     (case x of
        NaN \<Rightarrow> ''NaN''
      | NegInf \<Rightarrow> ''-Infinity''
      | PosInf \<Rightarrow> ''Infinity''
      | Fin q \<Rightarrow>
          (if q < 0 then ''-'' else [])
          @ nat_digits (nat \<lfloor>\<bar>q\<bar>\<rfloor>)
          @ (if \<bar>q\<bar> = of_int \<lfloor>\<bar>q\<bar>\<rfloor> then []
             else ''.'' @ fraction_digits 20 (\<bar>q\<bar> - of_int \<lfloor>\<bar>q\<bar>\<rfloor>)))"

text \<open>
  The node: its state is the number of pages of signatures it has served. It serves the
  pages of \<open>pages\<close> in order and empty pages after them, whatever the options of the request
  (so the text of the date in \<open>until\<close> is left fixed), knows the log lines \<open>logs\<close> of some
  signatures, and answers the two other methods with fixed values. The clock reads \<open>now\<close>.
  The connection is made, \<^verbatim>\<open>createPostResponse\<close> returns, and the constants have the values
  the libraries give them.
\<close>

definition parsed_of :: "(string \<times> string list) list \<Rightarrow> string \<Rightarrow> parsed_tx option" where
  "parsed_of logs sig =
     (case map_of logs sig of
        None \<Rightarrow> None
      | Some ls \<Rightarrow> Some (ParsedTx (Some (Meta (Some ls)))))"

definition node :: "int \<Rightarrow> sig_info list list \<Rightarrow> (string \<times> string list) list \<Rightarrow> nat platform" where
  "node now pages logs =
     \<lparr>PublicKey_new = bs58_PublicKey,
      toBase58 = bs58_toBase58,
      parseFloat = dec_parseFloat,
      times = exact_times,
      number_toString = dec_toString,
      Date_now = (\<lambda>served. now),
      toISOString = (\<lambda>t. ''1970-01-01T00:00:00.000Z''),
      getSignaturesForAddress =
        (\<lambda>key opts served. (Inr (if served < length pages then pages ! served else []), Suc served)),
      getParsedTransactions = (\<lambda>sigs served. (Inr (map (parsed_of logs) sigs), served)),
      getLatestBlockhash = (\<lambda>served. (Inr ''EkSnNWid2cvwEVnVx9aBqawnmiCNiDgp3gUdkDPTKN1N'', served)),
      getMinimumBalanceForRentExemption = (\<lambda>size served. (Inr (Fin 890880), served)),
      Connection_throws = None,
      SystemProgram_transfer_throws = BigInt_rejects,
      createPostResponse_throws = (\<lambda>tx msg. None),
      LAMPORTS_PER_SOL = Fin 1000000000,
      MEMO_PROGRAM_ID = ''MemoSq4gqABAXKb96qnH8TysNcWxMyWCqXgDLGmfcHr'',
      ACTIONS_CORS_HEADERS = [(''Access-Control-Allow-Origin'', ''*'')]\<rparr>"

text \<open>
  The same node behind a library that accepts the text
  \<^verbatim>\<open>YOUR_ACCOUNT_OR_PROGRAM_PUBLIC_KEY\<close> as a key: on it the scan of the Memo provider
  reaches the node.
\<close>

definition lenient_node ::
  "int \<Rightarrow> sig_info list list \<Rightarrow> (string \<times> string list) list \<Rightarrow> nat platform" where
  "lenient_node now pages logs =
     (node now pages logs)
       \<lparr>PublicKey_new :=
          (\<lambda>s. if s = ''YOUR_ACCOUNT_OR_PROGRAM_PUBLIC_KEY'' then Some (PubKey 1)
               else bs58_PublicKey s)\<rparr>"

text \<open>A request to \<^verbatim>\<open>https://example.org\<close> with the given query pairs and body.\<close>

definition request_to :: "(string \<times> string) list \<Rightarrow> json_body \<Rightarrow> request" where
  "request_to query b =
     \<lparr>url = \<lparr>origin = ''https://example.org'', pathname = ''/api/actions'',
              searchParams = query\<rparr>,
      json = b\<rparr>"

text \<open>
  Four nodes for the examples. Their clock reads 1700000000000, so the window of the scan
  starts at 1699913600000. \<open>idle_node\<close> has no signature to serve. \<open>untimed_node\<close> serves a
  first page whose entry has no \<open>blockTime\<close>, then a page with a transaction inside the window
  that logged the marker. \<open>boundary_node\<close> serves a first page whose entry is exactly at the
  start of the window, then a page with an older entry. \<open>marked_node\<close>, behind the lenient
  library, serves one page with a transaction inside the window that logged the marker.
\<close>

definition idle_node :: "nat platform" where
  "idle_node = node 1700000000000 [] []"

definition untimed_node :: "nat platform" where
  "untimed_node =
     node 1700000000000
       [[\<lparr>signature = ''s1'', blockTime = None\<rparr>],
        [\<lparr>signature = ''s2'', blockTime = Some 1699999000\<rparr>]]
       [(''s2'', [''Program log: initial message''])]"


definition marked_node :: "nat platform" where
  "marked_node =
     lenient_node 1700000000000
       [[\<lparr>signature = ''s1'', blockTime = Some 1699999000\<rparr>]]
       [(''s1'', [''Program log: initial message''])]"

text \<open>The account of the example requests: a valid key, 32 zero bytes in base58.\<close>

definition payer :: string where
  "payer = ''11111111111111111111111111111111''"

text \<open>
  The key that the reference library builds from the literal of \<^verbatim>\<open>const.ts\<close>, the default
  destination of the Transfer provider.
\<close>

definition default_key :: pubkey where
  "default_key =
     PubKey 62106128636942522800624683370549293257328823297060285197956402483243939929291"

section \<open>Observations on drafts and responses\<close>

text \<open>
  A memo instruction is an instruction of the memo program, the key built from
  \<open>MEMO_PROGRAM_ID\<close>; the two other instructions belong to the compute budget program and to
  the system program.
\<close>

definition is_memo :: "'w platform \<Rightarrow> instruction \<Rightarrow> bool" where
  "is_memo rt ix =
     (case ix of
        SetComputeUnitPrice price \<Rightarrow> False
      | TransactionInstruction programId payload keys \<Rightarrow>
          PublicKey_new rt (MEMO_PROGRAM_ID rt) = Some programId
      | SystemTransfer src dst lamports \<Rightarrow> False)"

definition non_memo :: "'w platform \<Rightarrow> instruction \<Rightarrow> bool" where
  "non_memo rt ix = (\<not> is_memo rt ix)"

text \<open>The data of the instructions of a draft that were built with \<^verbatim>\<open>new TransactionInstruction\<close>.\<close>

definition instruction_data :: "instruction \<Rightarrow> string option" where
  "instruction_data ix =
     (case ix of
        SetComputeUnitPrice price \<Rightarrow> None
      | TransactionInstruction programId payload keys \<Rightarrow> Some payload
      | SystemTransfer src dst lamports \<Rightarrow> None)"

definition memo_payloads :: "Transaction \<Rightarrow> string list" where
  "memo_payloads tx = List.map_filter instruction_data (instructions tx)"

text \<open>
  A run of the paging loop over pages that do not end it: from the cursor and the state
  given, the node serves exactly the pages of the list, one request after the other, each
  page not empty and its last entry not older than the start \<open>T\<close> of the window. The result
  is the cursor and the state after the last of them, \<open>None\<close> when the node does not serve
  these pages.
\<close>

fun serves_on ::
  "'w platform \<Rightarrow> pubkey \<Rightarrow> int \<Rightarrow> string option \<Rightarrow> 'w \<Rightarrow> sig_info list list
     \<Rightarrow> (string option \<times> 'w) option" where
  "serves_on rt publicKey T cursor w [] = Some (cursor, w)"
| "serves_on rt publicKey T cursor w (page # pages) =
     (case getSignaturesForAddress rt publicKey
             \<lparr>limit = 100, before = cursor, until = toISOString rt T\<rparr> w of
        (Inl e, w') \<Rightarrow> None
      | (Inr signatures, w') \<Rightarrow>
          if signatures = page \<and> page \<noteq> [] \<and> T \<le> blockTime_ms (last page)
          then serves_on rt publicKey T (Some (signature (last page))) w' pages
          else None)"

text \<open>
  A response with the parts of its metadata that are built from the origin of the request
  blanked: the icon and the href of every action.
\<close>

definition without_urls :: "response \<Rightarrow> response" where
  "without_urls r =
     r\<lparr>body :=
        (case body r of
           Text t \<Rightarrow> Text t
         | GetJson g \<Rightarrow>
             GetJson (g\<lparr>icon := [], links := map_option (map (\<lambda>a. a\<lparr>href := []\<rparr>)) (links g)\<rparr>)
         | PostJson p \<Rightarrow> PostJson p)\<rparr>"

section \<open>The paging loop of the History Scanner\<close>

text \<open>One iteration of the paging loop, by what the node answers.\<close>

lemma fetchSignatures_page:
  assumes "getSignaturesForAddress rt publicKey
             \<lparr>limit = 100, before = lastSignature, until = toISOString rt T\<rparr> w
           = (Inr signatures, w')"
  shows "fetchSignatures rt publicKey T allSignatures lastSignature w =
           (if signatures = [] then Some (Inr allSignatures, w')
            else if blockTime_ms (last signatures) < T
            then Some (Inr (allSignatures @ map signature signatures), w')
            else fetchSignatures rt publicKey T (allSignatures @ map signature signatures)
                   (Some (signature (last signatures))) w')"
  using assms by (subst fetchSignatures.simps) simp

lemma fetchSignatures_error:
  assumes "getSignaturesForAddress rt publicKey
             \<lparr>limit = 100, before = lastSignature, until = toISOString rt T\<rparr> w
           = (Inl e, w')"
  shows "fetchSignatures rt publicKey T allSignatures lastSignature w
           = Some (Inl (ThrownError e), w')"
  using assms by (subst fetchSignatures.simps) simp

text \<open>
  Whole runs of the loop. Pages that do not end the loop are accumulated and the loop goes
  on from the cursor after them; it returns with the first page that is empty or whose
  last entry is strictly older than the start of the window, and with the first error.
\<close>

lemma paging_run:
  assumes "serves_on rt publicKey T cursor w pages = Some (cursor', w')"
  shows "fetchSignatures rt publicKey T allSignatures cursor w =
           fetchSignatures rt publicKey T
             (allSignatures @ concat (map (map signature) pages)) cursor' w'"
  using assms
proof (induction pages arbitrary: allSignatures cursor w)
  case Nil
  then show ?case by simp
next
  case (Cons page pages)
  obtain answer w1 where a: "getSignaturesForAddress rt publicKey
      \<lparr>limit = 100, before = cursor, until = toISOString rt T\<rparr> w = (answer, w1)"
    by (cases "getSignaturesForAddress rt publicKey
      \<lparr>limit = 100, before = cursor, until = toISOString rt T\<rparr> w")
  with Cons.prems obtain signatures where s: "answer = Inr signatures"
    by (cases answer) simp_all
  from Cons.prems a s have page: "signatures = page" "page \<noteq> []" "T \<le> blockTime_ms (last page)"
    and rest: "serves_on rt publicKey T (Some (signature (last page))) w1 pages = Some (cursor', w')"
    by (simp_all split: if_splits)
  from a s page have "fetchSignatures rt publicKey T allSignatures cursor w =
      fetchSignatures rt publicKey T (allSignatures @ map signature page)
        (Some (signature (last page))) w1"
    by (simp add: fetchSignatures_page)
  also have "\<dots> = fetchSignatures rt publicKey T
      ((allSignatures @ map signature page) @ concat (map (map signature) pages)) cursor' w'"
    by (rule Cons.IH [OF rest])
  finally show ?case by simp
qed

lemma paging_returns_with_first_ending_page:
  assumes "serves_on rt publicKey T cursor w pages = Some (cursor', w')"
    and "getSignaturesForAddress rt publicKey
           \<lparr>limit = 100, before = cursor', until = toISOString rt T\<rparr> w' = (Inr page, w'')"
    and "page = [] \<or> blockTime_ms (last page) < T"
  shows "fetchSignatures rt publicKey T allSignatures cursor w =
           Some (Inr (allSignatures @ concat (map (map signature) (pages @ [page]))), w'')"
proof -
  from assms(2,3) have "fetchSignatures rt publicKey T
      (allSignatures @ concat (map (map signature) pages)) cursor' w' =
      Some (Inr ((allSignatures @ concat (map (map signature) pages)) @ map signature page), w'')"
    by (auto simp: fetchSignatures_page)
  with paging_run [OF assms(1), of allSignatures] show ?thesis by simp
qed

lemma paging_throws_with_first_error:
  assumes "serves_on rt publicKey T cursor w pages = Some (cursor', w')"
    and "getSignaturesForAddress rt publicKey
           \<lparr>limit = 100, before = cursor', until = toISOString rt T\<rparr> w' = (Inl e, w'')"
  shows "fetchSignatures rt publicKey T allSignatures cursor w = Some (Inl (ThrownError e), w'')"
  using paging_run [OF assms(1), of allSignatures] assms(2)
  by (simp add: fetchSignatures_error)

text \<open>
  What line 50 of \<^verbatim>\<open>memo/route.ts\<close> does with a page whose last entry has no \<open>blockTime\<close>:
  \<^verbatim>\<open>blockTime ?? 0\<close> reads the missing time as 0, which is compared with the start of the
  window like any other time.
\<close>

lemma missing_blockTime_read_as_zero:
  assumes "getSignaturesForAddress rt publicKey
             \<lparr>limit = 100, before = lastSignature, until = toISOString rt T\<rparr> w
           = (Inr signatures, w')"
    and "signatures \<noteq> []"
    and "blockTime (last signatures) = None"
  shows "fetchSignatures rt publicKey T allSignatures lastSignature w =
           (if 0 < T then Some (Inr (allSignatures @ map signature signatures), w')
            else fetchSignatures rt publicKey T (allSignatures @ map signature signatures)
                   (Some (signature (last signatures))) w')"
  using assms by (simp add: fetchSignatures_page blockTime_ms_def)

text \<open>
  C1. The property asked for is that a page whose last entry has no \<open>blockTime\<close> is taken as
  not yet past the window, so that the loop requests the next page. The code does not have
  it. At \<open>untimed_node\<close> the clock reads 1700000000000 and the window starts at
  1699913600000; the first page ends in the entry \<open>s1\<close> without \<open>blockTime\<close>, and the page
  after \<open>s1\<close> holds the transaction \<open>s2\<close>, inside the window, which logged the marker. The
  loop returns with the first page alone: the node has served one page, the second is never
  requested, and the scan answers that the marker was not logged.
\<close>

theorem missing_blockTime_stops_paging:
  "Date_now untimed_node 0 - 24 * 60 * 60 * 1000 = 1699913600000
   \<and> getSignaturesForAddress untimed_node (PubKey 0)
       \<lparr>limit = 100, before = None, until = toISOString untimed_node 1699913600000\<rparr> 0
     = (Inr [\<lparr>signature = ''s1'', blockTime = None\<rparr>], 1)
   \<and> getSignaturesForAddress untimed_node (PubKey 0)
       \<lparr>limit = 100, before = Some ''s1'', until = toISOString untimed_node 1699913600000\<rparr> 1
     = (Inr [\<lparr>signature = ''s2'', blockTime = Some 1699999000\<rparr>], 2)
   \<and> getParsedTransactions untimed_node [''s2''] 2
     = (Inr [Some (ParsedTx (Some (Meta (Some [''Program log: initial message'']))))], 2)
   \<and> fetchSignatures untimed_node (PubKey 0) 1699913600000 [] None 0 = Some (Inr [''s1''], 1)
   \<and> checkForMessage untimed_node payer ''initial message'' 100 0 = Some (Inr False, 1)"
  by (simp add: checkForMessage_def fetchSignatures.simps scanBatches.simps untimed_node_def
      node_def payer_def blockTime_ms_def bs58_PublicKey_def base58_alphabet_def
      byte_length.simps tx_has_log_def parsed_of_def)




section \<open>The Memo provider's payload\<close>

text \<open>
  C2. In the \<^verbatim>\<open>POST\<close> handler of the Memo provider the payload of the memo instruction is
  \<^verbatim>\<open>second message\<close> when the scan returns true and \<^verbatim>\<open>initial message\<close> when it returns
  false or throws. Whatever the scan did, the draft is built and handed to
  \<^verbatim>\<open>createPostResponse\<close> once the account, the connection, the memo program key and the
  blockhash are there, and the request is answered with status 200 when
  \<^verbatim>\<open>createPostResponse\<close> returns: an error of the scan does not fail the request.
\<close>

theorem memo_payload_follows_scan:
  assumes "json req = Json acct"
    and "PublicKey_new rt acct = Some account"
    and "Connection_throws rt = None"
    and "checkForMessage rt ''YOUR_ACCOUNT_OR_PROGRAM_PUBLIC_KEY'' ''initial message'' 100 w
           = Some (scan, w1)"
    and "PublicKey_new rt (MEMO_PROGRAM_ID rt) = Some programId"
    and "getLatestBlockhash rt w1 = (Inr blockhash, w2)"
    and "draft =
           \<lparr>instructions =
              [SetComputeUnitPrice 1000,
               TransactionInstruction programId
                 (if scan = Inr True then ''second message'' else ''initial message'') []],
            feePayer = Some account,
            recentBlockhash = Some blockhash\<rparr>"
  shows "POST_memo_fields rt req w = Some (Inr (draft, ''Post this memo on-chain''))
       \<and> POST_memo rt req w =
           Some (case createPostResponse_throws rt draft ''Post this memo on-chain'' of
                   Some e \<Rightarrow>
                     \<lparr>status = 400, headers = ACTIONS_CORS_HEADERS rt,
                      body = Text ''An unknown error occurred''\<rparr>
                 | None \<Rightarrow>
                     \<lparr>status = 200, headers = ACTIONS_CORS_HEADERS rt,
                      body = PostJson
                        \<lparr>transaction = draft, message = ''Post this memo on-chain''\<rparr>\<rparr>)"
proof -
  have "messageResult scan = (if scan = Inr True then ''second message'' else ''initial message'')"
    by (cases scan) (simp_all add: messageResult_def)
  with assms have handed:
    "POST_memo_fields rt req w = Some (Inr (draft, ''Post this memo on-chain''))"
    by (simp add: POST_memo_fields_def)
  then have "POST_memo rt req w = Some (post_response rt (draft, ''Post this memo on-chain''))"
    by (simp add: POST_memo_def)
  with handed show ?thesis
    by (simp add: post_response_def createPostResponse_def catch_response_def Response_400_def
        Response_json_def split: option.splits)
qed

text \<open>
  The theorem at \<open>marked_node\<close>, whose library accepts the scanned address: the node serves
  one page with a transaction that logged the marker, the scan returns true, and the memo
  carries \<^verbatim>\<open>second message\<close>.
\<close>

theorem memo_payload_follows_scan_witness:
  "json (request_to [] (Json payer)) = Json payer
   \<and> PublicKey_new marked_node payer = Some (PubKey 0)
   \<and> Connection_throws marked_node = None
   \<and> checkForMessage marked_node ''YOUR_ACCOUNT_OR_PROGRAM_PUBLIC_KEY'' ''initial message'' 100 0
      = Some (Inr True, 2)
   \<and> PublicKey_new marked_node (MEMO_PROGRAM_ID marked_node)
      = Some (PubKey 2392886213181616158119155895008144928703734678198593441007149093687784719501)
   \<and> getLatestBlockhash marked_node 2 = (Inr ''EkSnNWid2cvwEVnVx9aBqawnmiCNiDgp3gUdkDPTKN1N'', 2)
   \<and> POST_memo marked_node (request_to [] (Json payer)) 0
      = Some \<lparr>status = 200, headers = [(''Access-Control-Allow-Origin'', ''*'')],
          body = PostJson
            \<lparr>transaction =
               \<lparr>instructions =
                  [SetComputeUnitPrice 1000,
                   TransactionInstruction
                     (PubKey 2392886213181616158119155895008144928703734678198593441007149093687784719501)
                     ''second message'' []],
                feePayer = Some (PubKey 0),
                recentBlockhash = Some ''EkSnNWid2cvwEVnVx9aBqawnmiCNiDgp3gUdkDPTKN1N''\<rparr>,
             message = ''Post this memo on-chain''\<rparr>\<rparr>"
proof -
  let ?req = "request_to [] (Json payer)"
  let ?memo_key = "PubKey 2392886213181616158119155895008144928703734678198593441007149093687784719501"
  let ?draft = "\<lparr>instructions =
                  [SetComputeUnitPrice 1000,
                   TransactionInstruction ?memo_key
                     (if (Inr True :: thrown + bool) = Inr True
                      then ''second message'' else ''initial message'') []],
                feePayer = Some (PubKey 0),
                recentBlockhash = Some ''EkSnNWid2cvwEVnVx9aBqawnmiCNiDgp3gUdkDPTKN1N''\<rparr>"
  have h1: "json ?req = Json payer"
    by (simp add: request_to_def)
  have h2: "PublicKey_new marked_node payer = Some (PubKey 0)"
    by (simp add: marked_node_def lenient_node_def node_def payer_def bs58_PublicKey_def
        base58_alphabet_def byte_length.simps)
  have h3: "Connection_throws marked_node = None"
    by (simp add: marked_node_def lenient_node_def node_def)
  have h4: "checkForMessage marked_node ''YOUR_ACCOUNT_OR_PROGRAM_PUBLIC_KEY''
      ''initial message'' 100 0 = Some (Inr True, 2)"
    by (simp add: checkForMessage_def fetchSignatures.simps scanBatches.simps marked_node_def
        lenient_node_def node_def blockTime_ms_def tx_has_log_def parsed_of_def)
  have h5: "PublicKey_new marked_node (MEMO_PROGRAM_ID marked_node) = Some ?memo_key"
    by (simp add: marked_node_def lenient_node_def node_def bs58_PublicKey_def
        base58_alphabet_def byte_length.simps)
  have h6: "getLatestBlockhash marked_node 2
      = (Inr ''EkSnNWid2cvwEVnVx9aBqawnmiCNiDgp3gUdkDPTKN1N'', 2)"
    by (simp add: marked_node_def lenient_node_def node_def)
  have accepts: "createPostResponse_throws marked_node tx msg = None" for tx msg
    by (simp add: marked_node_def lenient_node_def node_def)
  have cors: "ACTIONS_CORS_HEADERS marked_node = [(''Access-Control-Allow-Origin'', ''*'')]"
    by (simp add: marked_node_def lenient_node_def node_def)
  have h7: "?draft = ?draft" by (rule refl)
  from memo_payload_follows_scan [OF h1 h2 h3 h4 h5 h6 h7]
  have "POST_memo marked_node ?req 0
      = Some \<lparr>status = 200, headers = [(''Access-Control-Allow-Origin'', ''*'')],
          body = PostJson
            \<lparr>transaction =
               \<lparr>instructions =
                  [SetComputeUnitPrice 1000,
                   TransactionInstruction ?memo_key ''second message'' []],
                feePayer = Some (PubKey 0),
                recentBlockhash = Some ''EkSnNWid2cvwEVnVx9aBqawnmiCNiDgp3gUdkDPTKN1N''\<rparr>,
             message = ''Post this memo on-chain''\<rparr>\<rparr>"
    by (simp add: accepts cors)
  with h1 h2 h3 h4 h5 h6 show ?thesis by simp
qed

text \<open>
  C3. When the library rejects the text \<^verbatim>\<open>YOUR_ACCOUNT_OR_PROGRAM_PUBLIC_KEY\<close> that the Memo
  provider passes as the address to scan, the scan throws before it reaches the node, for
  every request and every state of the network. The handler always answers; a draft it
  hands to \<^verbatim>\<open>createPostResponse\<close> and a draft it answers with carry the memo
  \<^verbatim>\<open>initial message\<close>, never \<^verbatim>\<open>second message\<close>, and every other answer is an error.
\<close>

theorem memo_payload_always_initial:
  assumes "PublicKey_new rt ''YOUR_ACCOUNT_OR_PROGRAM_PUBLIC_KEY'' = None"
  shows "checkForMessage rt ''YOUR_ACCOUNT_OR_PROGRAM_PUBLIC_KEY'' ''initial message'' 100 w
           = Some (Inl (ThrownError ''Invalid public key input''), w)
       \<and> (\<exists>outcome. POST_memo_fields rt req w = Some outcome
              \<and> (case outcome of
                    Inl r \<Rightarrow> status r = 400
                  | Inr handed \<Rightarrow> memo_payloads (fst handed) = [''initial message'']))
       \<and> (\<exists>r. POST_memo rt req w = Some r
              \<and> (case body r of
                    Text t \<Rightarrow> status r = 400
                  | GetJson g \<Rightarrow> False
                  | PostJson p \<Rightarrow>
                      status r = 200 \<and> memo_payloads (transaction p) = [''initial message'']))"
proof -
  have scan: "checkForMessage rt ''YOUR_ACCOUNT_OR_PROGRAM_PUBLIC_KEY'' ''initial message'' 100 w
           = Some (Inl (ThrownError ''Invalid public key input''), w)"
    using assms by (simp add: checkForMessage_def)
  have all: "case POST_memo_fields rt req w of
               None \<Rightarrow> False
             | Some (Inl r) \<Rightarrow> status r = 400 \<and> (\<exists>t. body r = Text t)
             | Some (Inr handed) \<Rightarrow> memo_payloads (fst handed) = [''initial message'']"
    by (simp add: POST_memo_fields_def scan catch_response_def Response_400_def
        messageResult_def memo_payloads_def instruction_data_def List.map_filter_simps
        split: json_body.splits option.splits sum.splits prod.splits)
  then obtain outcome where o: "POST_memo_fields rt req w = Some outcome"
    by (cases "POST_memo_fields rt req w") simp_all
  from all o have early: "status r = 400 \<and> (\<exists>t. body r = Text t)" if "outcome = Inl r" for r
    using that by simp
  from all o have late: "memo_payloads (fst handed) = [''initial message'']"
    if "outcome = Inr handed" for handed
    using that by simp
  from o early late have fields: "\<exists>outcome. POST_memo_fields rt req w = Some outcome
              \<and> (case outcome of
                    Inl r \<Rightarrow> status r = 400
                  | Inr handed \<Rightarrow> memo_payloads (fst handed) = [''initial message''])"
    by (cases outcome) simp_all
  have "\<exists>r. POST_memo rt req w = Some r
              \<and> (case body r of
                    Text t \<Rightarrow> status r = 400
                  | GetJson g \<Rightarrow> False
                  | PostJson p \<Rightarrow>
                      status r = 200 \<and> memo_payloads (transaction p) = [''initial message''])"
  proof (cases outcome)
    case (Inl r)
    with o have "POST_memo rt req w = Some r"
      by (simp add: POST_memo_def)
    moreover from early [OF Inl] have "status r = 400" and "\<exists>t. body r = Text t"
      by simp_all
    ultimately show ?thesis by auto
  next
    case (Inr handed)
    with o have "POST_memo rt req w = Some (post_response rt handed)"
      by (simp add: POST_memo_def)
    moreover from late [OF Inr] have "memo_payloads (fst handed) = [''initial message'']" .
    ultimately show ?thesis
      by (simp add: post_response_def createPostResponse_def catch_response_def
          Response_400_def Response_json_def split: option.splits)
  qed
  with scan fields show ?thesis by blast
qed

text \<open>
  The theorem at \<open>idle_node\<close>, on the reference library, whose base58 decoding rejects the
  text at its second character.
\<close>

theorem memo_payload_always_initial_witness:
  "PublicKey_new idle_node ''YOUR_ACCOUNT_OR_PROGRAM_PUBLIC_KEY'' = None
   \<and> checkForMessage idle_node ''YOUR_ACCOUNT_OR_PROGRAM_PUBLIC_KEY'' ''initial message'' 100 0
      = Some (Inl (ThrownError ''Invalid public key input''), 0)
   \<and> POST_memo idle_node (request_to [] (Json payer)) 0
      = Some \<lparr>status = 200, headers = [(''Access-Control-Allow-Origin'', ''*'')],
          body = PostJson
            \<lparr>transaction =
               \<lparr>instructions =
                  [SetComputeUnitPrice 1000,
                   TransactionInstruction
                     (PubKey 2392886213181616158119155895008144928703734678198593441007149093687784719501)
                     ''initial message'' []],
                feePayer = Some (PubKey 0),
                recentBlockhash = Some ''EkSnNWid2cvwEVnVx9aBqawnmiCNiDgp3gUdkDPTKN1N''\<rparr>,
             message = ''Post this memo on-chain''\<rparr>\<rparr>"
proof -
  let ?memo_key = "PubKey 2392886213181616158119155895008144928703734678198593441007149093687784719501"
  have h: "PublicKey_new idle_node ''YOUR_ACCOUNT_OR_PROGRAM_PUBLIC_KEY'' = None"
    by (simp add: idle_node_def node_def bs58_PublicKey_def base58_alphabet_def)
  from memo_payload_always_initial [OF h, of 0]
  have scan: "checkForMessage idle_node ''YOUR_ACCOUNT_OR_PROGRAM_PUBLIC_KEY''
      ''initial message'' 100 0 = Some (Inl (ThrownError ''Invalid public key input''), 0)"
    by blast
  have k: "PublicKey_new idle_node payer = Some (PubKey 0)"
    by (simp add: idle_node_def node_def payer_def bs58_PublicKey_def base58_alphabet_def
        byte_length.simps)
  have memo_key: "PublicKey_new idle_node (MEMO_PROGRAM_ID idle_node) = Some ?memo_key"
    by (simp add: idle_node_def node_def bs58_PublicKey_def base58_alphabet_def
        byte_length.simps)
  have rest: "Connection_throws idle_node = None"
    "getLatestBlockhash idle_node 0 = (Inr ''EkSnNWid2cvwEVnVx9aBqawnmiCNiDgp3gUdkDPTKN1N'', 0)"
    "createPostResponse_throws idle_node tx msg = None"
    "ACTIONS_CORS_HEADERS idle_node = [(''Access-Control-Allow-Origin'', ''*'')]" for tx msg
    by (simp_all add: idle_node_def node_def)
  have "POST_memo idle_node (request_to [] (Json payer)) 0
      = Some \<lparr>status = 200, headers = [(''Access-Control-Allow-Origin'', ''*'')],
          body = PostJson
            \<lparr>transaction =
               \<lparr>instructions =
                  [SetComputeUnitPrice 1000,
                   TransactionInstruction ?memo_key ''initial message'' []],
                feePayer = Some (PubKey 0),
                recentBlockhash = Some ''EkSnNWid2cvwEVnVx9aBqawnmiCNiDgp3gUdkDPTKN1N''\<rparr>,
             message = ''Post this memo on-chain''\<rparr>\<rparr>"
    by (simp add: POST_memo_def POST_memo_fields_def request_to_def k scan memo_key rest
        messageResult_def post_response_def createPostResponse_def Response_json_def)
  with h scan show ?thesis by simp
qed

section \<open>The query validator of the Transfer provider\<close>

text \<open>The reference library builds \<open>default_key\<close> from the literal of \<^verbatim>\<open>const.ts\<close>.\<close>

lemma reference_default_address:
  "DEFAULT_SOL_ADDRESS (node now pages logs) = Some default_key"
  by (simp add: DEFAULT_SOL_ADDRESS_def node_def default_key_def bs58_PublicKey_def
      base58_alphabet_def byte_length.simps)

text \<open>
  The outcome of the validator for an \<^verbatim>\<open>amount\<close> that is present and not empty, once the
  destination is settled: the one test is \<^verbatim>\<open>amount <= 0\<close> on what \<^verbatim>\<open>parseFloat\<close> returned.
\<close>

lemma validatedQueryParams_amount:
  assumes "searchParams_get requestUrl ''amount'' = Some a"
    and "a \<noteq> []"
    and "(case searchParams_get requestUrl ''to'' of
            None \<Rightarrow> Some dflt
          | Some to \<Rightarrow> if to = [] then Some dflt else PublicKey_new rt to) = Some k"
  shows "validatedQueryParams rt dflt requestUrl =
           (if num_le (parseFloat rt a) (Fin 0)
            then Inl (ThrownString ''Invalid input query parameter: amount'')
            else Inr \<lparr>amount = parseFloat rt a, toPubkey = k\<rparr>)"
  using assms by (simp add: validatedQueryParams_def)

text \<open>An amount that parses to a number at most zero is rejected, naming the parameter.\<close>

lemma nonpositive_amount_rejected:
  assumes "searchParams_get requestUrl ''amount'' = Some a"
    and "a \<noteq> []"
    and "(case searchParams_get requestUrl ''to'' of
            None \<Rightarrow> Some dflt
          | Some to \<Rightarrow> if to = [] then Some dflt else PublicKey_new rt to) = Some k"
    and "parseFloat rt a = Fin x"
    and "x \<le> 0"
  shows "validatedQueryParams rt dflt requestUrl
           = Inl (ThrownString ''Invalid input query parameter: amount'')"
  using assms by (simp add: validatedQueryParams_amount)

text \<open>Such a request is answered 400 with that text, by \<^verbatim>\<open>GET\<close> and by \<^verbatim>\<open>POST\<close>.\<close>

lemma nonpositive_amount_answered_400:
  assumes "searchParams_get (url req) ''amount'' = Some a"
    and "a \<noteq> []"
    and "(case searchParams_get (url req) ''to'' of
            None \<Rightarrow> Some dflt
          | Some to \<Rightarrow> if to = [] then Some dflt else PublicKey_new rt to) = Some k"
    and "parseFloat rt a = Fin x"
    and "x \<le> 0"
  shows "GET_transfer rt dflt req =
           \<lparr>status = 400, headers = ACTIONS_CORS_HEADERS rt,
            body = Text ''Invalid input query parameter: amount''\<rparr>"
    and "POST_transfer rt dflt req w =
           \<lparr>status = 400, headers = ACTIONS_CORS_HEADERS rt,
            body = Text ''Invalid input query parameter: amount''\<rparr>"
  using nonpositive_amount_rejected [OF assms]
  by (simp_all add: GET_transfer_def POST_transfer_def POST_transfer_fields_def
      catch_response_def Response_400_def)

text \<open>An amount that does not parse passes the validator, on every platform.\<close>

lemma unparsable_amount_passes:
  assumes "searchParams_get requestUrl ''amount'' = Some a"
    and "a \<noteq> []"
    and "(case searchParams_get requestUrl ''to'' of
            None \<Rightarrow> Some dflt
          | Some to \<Rightarrow> if to = [] then Some dflt else PublicKey_new rt to) = Some k"
    and "parseFloat rt a = NaN"
  shows "validatedQueryParams rt dflt requestUrl = Inr \<lparr>amount = NaN, toPubkey = k\<rparr>"
  using assms by (simp add: validatedQueryParams_amount)

text \<open>
  C5. The claim asks for a validation error naming \<^verbatim>\<open>amount\<close> when the amount does not parse.
  The code at the query \<^verbatim>\<open>amount=abc\<close>: \<^verbatim>\<open>parseFloat\<close> gives NaN, \<^verbatim>\<open>NaN <= 0\<close> is false, and the
  validator returns the amount NaN. \<^verbatim>\<open>GET\<close> answers 200; \<^verbatim>\<open>POST\<close> goes past the validator and
  the rent check and fails in \<^verbatim>\<open>SystemProgram.transfer\<close>, with a text that does not name
  the parameter.
\<close>

theorem unparsable_amount_not_rejected:
  "parseFloat idle_node ''abc'' = NaN
   \<and> validatedQueryParams idle_node default_key (url (request_to [(''amount'', ''abc'')] NotJson))
      = Inr \<lparr>amount = NaN, toPubkey = default_key\<rparr>
   \<and> status (GET_transfer idle_node default_key (request_to [(''amount'', ''abc'')] NotJson))
      = 200
   \<and> body (POST_transfer idle_node default_key
        (request_to [(''amount'', ''abc'')] (Json payer)) 0)
      = Text ''An unknown error occurred''"
proof -
  have nan: "parseFloat idle_node ''abc'' = NaN"
    by (simp add: idle_node_def node_def dec_parseFloat_def unsigned_literal_def is_digit_def)
  have v: "validatedQueryParams idle_node default_key
             (url (request_to [(''amount'', ''abc'')] b))
      = Inr \<lparr>amount = NaN, toPubkey = default_key\<rparr>" for b
    by (rule unparsable_amount_passes [where a = "''abc''"])
      (simp_all add: nan request_to_def searchParams_get_def)
  have g: "status (GET_transfer idle_node default_key (request_to [(''amount'', ''abc'')] NotJson))
      = 200"
    by (simp add: GET_transfer_def v Response_json_def Let_def)
  have k: "PublicKey_new idle_node payer = Some (PubKey 0)"
    by (simp add: idle_node_def node_def payer_def bs58_PublicKey_def base58_alphabet_def
        byte_length.simps)
  have p: "body (POST_transfer idle_node default_key
        (request_to [(''amount'', ''abc'')] (Json payer)) 0)
      = Text ''An unknown error occurred''"
  proof -
    have "json (request_to [(''amount'', ''abc'')] (Json payer)) = Json payer"
      by (simp add: request_to_def)
    moreover have "getMinimumBalanceForRentExemption idle_node 0 0 = (Inr (Fin 890880), 0)"
      by (simp add: idle_node_def node_def)
    moreover have "times idle_node NaN (LAMPORTS_PER_SOL idle_node) = NaN"
      by (simp add: idle_node_def node_def exact_times_def)
    moreover have "SystemProgram_transfer_throws idle_node NaN = Some ''RangeError''"
      by (simp add: idle_node_def node_def BigInt_rejects_def)
    moreover have "Connection_throws idle_node = None"
      by (simp add: idle_node_def node_def)
    ultimately show ?thesis
      by (simp add: POST_transfer_def POST_transfer_fields_def v k catch_response_def
          Response_400_def)
  qed
  from nan v g p show ?thesis by simp
qed

section \<open>The rent check of the Transfer provider\<close>

lemma str_includes_append: "str_includes (prefix @ s) s"
proof (induction prefix)
  case Nil
  show ?case by (cases s) simp_all
next
  case (Cons c prefix)
  then show ?case by simp
qed

text \<open>
  C6. For a request that reaches the rent check (the query validates, the body carries a
  valid account, the connection is made, the node reports a minimum balance), \<^verbatim>\<open>POST\<close> of
  the Transfer provider answers 400 with the text
  \<^verbatim>\<open>account may not be rent exempt: <destination>\<close> if and only if
  \<^verbatim>\<open>amount * LAMPORTS_PER_SOL < minimumBalance\<close>; that text includes the destination
  address. Otherwise it goes on to build the transfer: when the library accepts the
  amount and the node gives a blockhash, the draft of one transfer of
  \<^verbatim>\<open>amount * LAMPORTS_PER_SOL\<close> from the account to the destination is handed to
  \<^verbatim>\<open>createPostResponse\<close>, and the response is made from what that returns.
\<close>

theorem rent_check_rejects_exactly_below_minimum:
  assumes "validatedQueryParams rt dflt (url req) = Inr q"
    and "json req = Json acct"
    and "PublicKey_new rt acct = Some account"
    and "Connection_throws rt = None"
    and "getMinimumBalanceForRentExemption rt 0 w = (Inr minimumBalance, w1)"
  shows "((POST_transfer rt dflt req w =
            \<lparr>status = 400, headers = ACTIONS_CORS_HEADERS rt,
             body = Text (''account may not be rent exempt: '' @ toBase58 rt (toPubkey q))\<rparr>)
          = num_less (times rt (amount q) (LAMPORTS_PER_SOL rt)) minimumBalance)
       \<and> str_includes (''account may not be rent exempt: '' @ toBase58 rt (toPubkey q))
            (toBase58 rt (toPubkey q))
       \<and> (\<not> num_less (times rt (amount q) (LAMPORTS_PER_SOL rt)) minimumBalance
            \<and> SystemProgram_transfer_throws rt (times rt (amount q) (LAMPORTS_PER_SOL rt)) = None
            \<and> getLatestBlockhash rt w1 = (Inr blockhash, w2)
          \<longrightarrow> POST_transfer_fields rt dflt req w =
                Inr (\<lparr>instructions =
                        [SystemTransfer account (toPubkey q)
                           (times rt (amount q) (LAMPORTS_PER_SOL rt))],
                      feePayer = Some account,
                      recentBlockhash = Some blockhash\<rparr>,
                     ''Send '' @ number_toString rt (amount q) @ '' SOL to ''
                       @ toBase58 rt (toPubkey q))
              \<and> POST_transfer rt dflt req w =
                post_response rt
                  (\<lparr>instructions =
                      [SystemTransfer account (toPubkey q)
                         (times rt (amount q) (LAMPORTS_PER_SOL rt))],
                    feePayer = Some account,
                    recentBlockhash = Some blockhash\<rparr>,
                   ''Send '' @ number_toString rt (amount q) @ '' SOL to ''
                     @ toBase58 rt (toPubkey q)))"
proof -
  let ?lamports = "times rt (amount q) (LAMPORTS_PER_SOL rt)"
  let ?rent = "\<lparr>status = 400, headers = ACTIONS_CORS_HEADERS rt,
             body = Text (''account may not be rent exempt: '' @ toBase58 rt (toPubkey q))\<rparr>"
  have below: "POST_transfer rt dflt req w = ?rent" if "num_less ?lamports minimumBalance"
    using assms that
    by (simp add: POST_transfer_def POST_transfer_fields_def catch_response_def Response_400_def)
  have unknown: "catch_response rt (ThrownError e) \<noteq> ?rent" for e
    by (simp add: catch_response_def Response_400_def)
  have answered: "post_response rt handed \<noteq> ?rent" for handed
    by (simp add: post_response_def createPostResponse_def catch_response_def Response_400_def
        Response_json_def split: option.splits)
  have above: "POST_transfer rt dflt req w \<noteq> ?rent" if "\<not> num_less ?lamports minimumBalance"
  proof (cases "SystemProgram_transfer_throws rt ?lamports")
    case (Some e)
    with assms that unknown [of e] show ?thesis
      by (simp add: POST_transfer_def POST_transfer_fields_def)
  next
    case None
    obtain answer w2' where bh: "getLatestBlockhash rt w1 = (answer, w2')"
      by (cases "getLatestBlockhash rt w1")
    show ?thesis
    proof (cases answer)
      case (Inl e)
      with assms that None bh unknown [of e] show ?thesis
        by (simp add: POST_transfer_def POST_transfer_fields_def)
    next
      case (Inr b)
      with assms that None bh answered show ?thesis
        by (simp add: POST_transfer_def POST_transfer_fields_def)
    qed
  qed
  have built: "POST_transfer_fields rt dflt req w =
                Inr (\<lparr>instructions = [SystemTransfer account (toPubkey q) ?lamports],
                      feePayer = Some account,
                      recentBlockhash = Some blockhash\<rparr>,
                     ''Send '' @ number_toString rt (amount q) @ '' SOL to ''
                       @ toBase58 rt (toPubkey q))"
    if "\<not> num_less ?lamports minimumBalance" "SystemProgram_transfer_throws rt ?lamports = None"
      "getLatestBlockhash rt w1 = (Inr blockhash, w2)"
    using assms that by (simp add: POST_transfer_fields_def)
  have responded: "POST_transfer rt dflt req w =
                post_response rt
                  (\<lparr>instructions = [SystemTransfer account (toPubkey q) ?lamports],
                    feePayer = Some account,
                    recentBlockhash = Some blockhash\<rparr>,
                   ''Send '' @ number_toString rt (amount q) @ '' SOL to ''
                     @ toBase58 rt (toPubkey q))"
    if "\<not> num_less ?lamports minimumBalance" "SystemProgram_transfer_throws rt ?lamports = None"
      "getLatestBlockhash rt w1 = (Inr blockhash, w2)"
    using built [OF that] by (simp add: POST_transfer_def)
  have rejects: "(POST_transfer rt dflt req w = ?rent) = num_less ?lamports minimumBalance"
    using below above by blast
  have includes_destination:
    "str_includes (''account may not be rent exempt: '' @ toBase58 rt (toPubkey q))
       (toBase58 rt (toPubkey q))"
    by (rule str_includes_append)
  from rejects includes_destination built responded show ?thesis by blast
qed

text \<open>
  The theorem at \<open>idle_node\<close>, at two requests that reach the rent check with a minimum
  balance of 890880 lamports: \<^verbatim>\<open>amount=1\<close> is 1000000000 lamports and the transfer is built;
  \<^verbatim>\<open>amount=0.0001\<close> is 100000 lamports and the request is rejected.
\<close>

theorem rent_check_rejects_exactly_below_minimum_witness:
  "validatedQueryParams idle_node default_key (url (request_to [(''amount'', ''1'')] (Json payer)))
     = Inr \<lparr>amount = Fin 1, toPubkey = default_key\<rparr>
   \<and> json (request_to [(''amount'', ''1'')] (Json payer)) = Json payer
   \<and> PublicKey_new idle_node payer = Some (PubKey 0)
   \<and> Connection_throws idle_node = None
   \<and> getMinimumBalanceForRentExemption idle_node 0 0 = (Inr (Fin 890880), 0)
   \<and> num_less (times idle_node (Fin 1) (LAMPORTS_PER_SOL idle_node)) (Fin 890880) = False
   \<and> POST_transfer idle_node default_key (request_to [(''amount'', ''1'')] (Json payer)) 0
      = \<lparr>status = 200, headers = [(''Access-Control-Allow-Origin'', ''*'')],
         body = PostJson
           \<lparr>transaction =
              \<lparr>instructions = [SystemTransfer (PubKey 0) default_key (Fin 1000000000)],
               feePayer = Some (PubKey 0),
               recentBlockhash = Some ''EkSnNWid2cvwEVnVx9aBqawnmiCNiDgp3gUdkDPTKN1N''\<rparr>,
            message = ''Send 1 SOL to AEzZqXyPxWJrjrauScDWMyewnWhv6XwmwqGdXD5vDVd4''\<rparr>\<rparr>
   \<and> num_less (times idle_node (Fin (1 / 10000)) (LAMPORTS_PER_SOL idle_node)) (Fin 890880)
      = True
   \<and> POST_transfer idle_node default_key (request_to [(''amount'', ''0.0001'')] (Json payer)) 0
      = \<lparr>status = 400, headers = [(''Access-Control-Allow-Origin'', ''*'')],
         body = Text
           ''account may not be rent exempt: AEzZqXyPxWJrjrauScDWMyewnWhv6XwmwqGdXD5vDVd4''\<rparr>"
proof -
  let ?one = "request_to [(''amount'', ''1'')] (Json payer)"
  let ?small = "request_to [(''amount'', ''0.0001'')] (Json payer)"
  have v1: "validatedQueryParams idle_node default_key (url ?one)
      = Inr \<lparr>amount = Fin 1, toPubkey = default_key\<rparr>"
    by (simp add: validatedQueryParams_def request_to_def searchParams_get_def idle_node_def
        node_def dec_parseFloat_def unsigned_literal_def is_digit_def)
  have v2: "validatedQueryParams idle_node default_key (url ?small)
      = Inr \<lparr>amount = Fin (1 / 10000), toPubkey = default_key\<rparr>"
    by (simp add: validatedQueryParams_def request_to_def searchParams_get_def idle_node_def
        node_def dec_parseFloat_def unsigned_literal_def is_digit_def)
  have j1: "json ?one = Json payer" and j2: "json ?small = Json payer"
    by (simp_all add: request_to_def)
  have k: "PublicKey_new idle_node payer = Some (PubKey 0)"
    by (simp add: idle_node_def node_def payer_def bs58_PublicKey_def base58_alphabet_def
        byte_length.simps)
  have c: "Connection_throws idle_node = None"
    by (simp add: idle_node_def node_def)
  have m: "getMinimumBalanceForRentExemption idle_node 0 0 = (Inr (Fin 890880), 0)"
    by (simp add: idle_node_def node_def)
  have l1: "times idle_node (Fin 1) (LAMPORTS_PER_SOL idle_node) = Fin 1000000000"
    and l2: "times idle_node (Fin (1 / 10000)) (LAMPORTS_PER_SOL idle_node) = Fin 100000"
    by (simp_all add: idle_node_def node_def exact_times_def)
  have ok: "SystemProgram_transfer_throws idle_node (Fin 1000000000) = None"
    by (simp add: idle_node_def node_def BigInt_rejects_def)
  have accepts: "createPostResponse_throws idle_node tx msg = None" for tx msg
    by (simp add: idle_node_def node_def)
  have bh: "getLatestBlockhash idle_node 0
      = (Inr ''EkSnNWid2cvwEVnVx9aBqawnmiCNiDgp3gUdkDPTKN1N'', 0)"
    by (simp add: idle_node_def node_def)
  have cors: "ACTIONS_CORS_HEADERS idle_node = [(''Access-Control-Allow-Origin'', ''*'')]"
    by (simp add: idle_node_def node_def)
  have dest: "toBase58 idle_node default_key = ''AEzZqXyPxWJrjrauScDWMyewnWhv6XwmwqGdXD5vDVd4''"
    by (simp add: idle_node_def node_def bs58_toBase58_def default_key_def byte_length.simps
        base58_digits.simps base58_alphabet_def)
  have text1: "number_toString idle_node (Fin 1) = ''1''"
    by (simp add: idle_node_def node_def dec_toString_def nat_digits.simps)
  from rent_check_rejects_exactly_below_minimum
    [OF v1 j1 k c m, of "''EkSnNWid2cvwEVnVx9aBqawnmiCNiDgp3gUdkDPTKN1N''" 0]
  have built: "POST_transfer idle_node default_key ?one 0
      = \<lparr>status = 200, headers = [(''Access-Control-Allow-Origin'', ''*'')],
         body = PostJson
           \<lparr>transaction =
              \<lparr>instructions = [SystemTransfer (PubKey 0) default_key (Fin 1000000000)],
               feePayer = Some (PubKey 0),
               recentBlockhash = Some ''EkSnNWid2cvwEVnVx9aBqawnmiCNiDgp3gUdkDPTKN1N''\<rparr>,
            message = ''Send 1 SOL to AEzZqXyPxWJrjrauScDWMyewnWhv6XwmwqGdXD5vDVd4''\<rparr>\<rparr>"
    by (simp add: l1 ok bh cors dest text1 post_response_def createPostResponse_def accepts
        Response_json_def)
  from rent_check_rejects_exactly_below_minimum [OF v2 j2 k c m]
  have rejected: "POST_transfer idle_node default_key ?small 0
      = \<lparr>status = 400, headers = [(''Access-Control-Allow-Origin'', ''*'')],
         body = Text
           ''account may not be rent exempt: AEzZqXyPxWJrjrauScDWMyewnWhv6XwmwqGdXD5vDVd4''\<rparr>"
    by (simp add: l2 cors dest)
  from v1 j1 k c m built rejected show ?thesis
    by (simp add: l1 l2)
qed

section \<open>Malformed accounts\<close>

text \<open>The query validator throws nothing but its two texts.\<close>

lemma validatedQueryParams_throws:
  assumes "validatedQueryParams rt dflt requestUrl = Inl err"
  shows "err = ThrownString ''Invalid input query parameter: to''
       \<or> err = ThrownString ''Invalid input query parameter: amount''"
  using assms
  by (auto simp: validatedQueryParams_def Let_def split: option.splits if_splits)

text \<open>
  C7 (as amended). For every \<^verbatim>\<open>POST\<close> body whose account is not a valid account identifier,
  the Memo provider answers 400 with exactly the body \<^verbatim>\<open>Invalid "account" provided\<close>. The
  Transfer provider validates the query first: it answers the same when the query
  parameters are valid, and answers with the error of the query validator otherwise.
\<close>

theorem malformed_account_rejected:
  assumes "json req = Json acct"
    and "PublicKey_new rt acct = None"
  shows "POST_memo rt req w =
           Some \<lparr>status = 400, headers = ACTIONS_CORS_HEADERS rt,
                 body = Text Invalid_account_provided\<rparr>
       \<and> POST_transfer rt dflt req w =
           (case validatedQueryParams rt dflt (url req) of
              Inl err \<Rightarrow> catch_response rt err
            | Inr q \<Rightarrow>
                \<lparr>status = 400, headers = ACTIONS_CORS_HEADERS rt,
                 body = Text Invalid_account_provided\<rparr>)"
  using assms
  by (simp add: POST_memo_def POST_memo_fields_def POST_transfer_def POST_transfer_fields_def
      Response_400_def split: sum.splits)

text \<open>
  The theorem at \<open>idle_node\<close>, at a body whose account has a character outside the base58
  alphabet and a query without parameters.
\<close>

theorem malformed_account_rejected_witness:
  "json (request_to [] (Json ''not-an-account'')) = Json ''not-an-account''
   \<and> PublicKey_new idle_node ''not-an-account'' = None
   \<and> POST_memo idle_node (request_to [] (Json ''not-an-account'')) 0 =
       Some \<lparr>status = 400, headers = [(''Access-Control-Allow-Origin'', ''*'')],
             body = Text Invalid_account_provided\<rparr>
   \<and> POST_transfer idle_node default_key (request_to [] (Json ''not-an-account'')) 0 =
       \<lparr>status = 400, headers = [(''Access-Control-Allow-Origin'', ''*'')],
        body = Text Invalid_account_provided\<rparr>"
proof -
  let ?req = "request_to [] (Json ''not-an-account'')"
  have j: "json ?req = Json ''not-an-account''"
    by (simp add: request_to_def)
  have k: "PublicKey_new idle_node ''not-an-account'' = None"
    by (simp add: idle_node_def node_def bs58_PublicKey_def base58_alphabet_def)
  have v: "validatedQueryParams idle_node default_key (url ?req)
      = Inr \<lparr>amount = DEFAULT_SOL_AMOUNT, toPubkey = default_key\<rparr>"
    by (simp add: validatedQueryParams_def request_to_def searchParams_get_def
        DEFAULT_SOL_AMOUNT_def)
  have cors: "ACTIONS_CORS_HEADERS idle_node = [(''Access-Control-Allow-Origin'', ''*'')]"
    by (simp add: idle_node_def node_def)
  from malformed_account_rejected [OF j k, of 0 default_key] j k show ?thesis
    by (simp add: v cors)
qed

text \<open>
  C7 as it is stated fails for the Transfer provider: with the query \<^verbatim>\<open>amount=0\<close> and the
  same malformed account, the answer is the error of the query validator.
\<close>

theorem malformed_account_after_query_counterexample:
  "PublicKey_new idle_node ''not-an-account'' = None
   \<and> POST_transfer idle_node default_key
        (request_to [(''amount'', ''0'')] (Json ''not-an-account'')) 0 =
       \<lparr>status = 400, headers = [(''Access-Control-Allow-Origin'', ''*'')],
        body = Text ''Invalid input query parameter: amount''\<rparr>
   \<and> Text ''Invalid input query parameter: amount'' \<noteq> Text Invalid_account_provided"
proof -
  have k: "PublicKey_new idle_node ''not-an-account'' = None"
    by (simp add: idle_node_def node_def bs58_PublicKey_def base58_alphabet_def)
  have v: "validatedQueryParams idle_node default_key
             (url (request_to [(''amount'', ''0'')] (Json ''not-an-account'')))
      = Inl (ThrownString ''Invalid input query parameter: amount'')"
    by (simp add: validatedQueryParams_def request_to_def searchParams_get_def idle_node_def
        node_def dec_parseFloat_def unsigned_literal_def is_digit_def)
  have cors: "ACTIONS_CORS_HEADERS idle_node = [(''Access-Control-Allow-Origin'', ''*'')]"
    by (simp add: idle_node_def node_def)
  have p: "POST_transfer idle_node default_key
        (request_to [(''amount'', ''0'')] (Json ''not-an-account'')) 0 =
       \<lparr>status = 400, headers = [(''Access-Control-Allow-Origin'', ''*'')],
        body = Text ''Invalid input query parameter: amount''\<rparr>"
    by (simp add: POST_transfer_def POST_transfer_fields_def v catch_response_def
        Response_400_def cors)
  have d: "Text ''Invalid input query parameter: amount'' \<noteq> Text Invalid_account_provided"
    by (simp add: Invalid_account_provided_def)
  from k p d show ?thesis by simp
qed

section \<open>Drafts handed to \<^verbatim>\<open>createPostResponse\<close>\<close>

text \<open>
  C8. Every draft handed to \<^verbatim>\<open>createPostResponse\<close> has an instruction that is not a memo. The
  draft of the Memo provider is the instruction that sets the compute unit price to 1000
  microlamports followed by the memo instruction, of the memo program and with no keys;
  the draft of the Transfer provider is one system transfer.
\<close>

theorem drafts_have_a_non_memo_instruction:
  "(POST_memo_fields rt req w = Some (Inr (tx, msg))
      \<longrightarrow> (\<exists>programId payload.
             PublicKey_new rt (MEMO_PROGRAM_ID rt) = Some programId
             \<and> instructions tx =
                 [SetComputeUnitPrice 1000, TransactionInstruction programId payload []])
          \<and> list_ex (non_memo rt) (instructions tx))
   \<and> (POST_transfer_fields rt dflt req' w' = Inr (tx', msg')
      \<longrightarrow> (\<exists>src dst lamports. instructions tx' = [SystemTransfer src dst lamports])
          \<and> list_ex (non_memo rt) (instructions tx'))"
proof (intro conjI impI)
  assume "POST_memo_fields rt req w = Some (Inr (tx, msg))"
  then have shape: "\<exists>programId payload.
             PublicKey_new rt (MEMO_PROGRAM_ID rt) = Some programId
             \<and> instructions tx =
                 [SetComputeUnitPrice 1000, TransactionInstruction programId payload []]"
    by (auto simp: POST_memo_fields_def
        split: json_body.splits option.splits sum.splits prod.splits)
  then show "\<exists>programId payload.
             PublicKey_new rt (MEMO_PROGRAM_ID rt) = Some programId
             \<and> instructions tx =
                 [SetComputeUnitPrice 1000, TransactionInstruction programId payload []]" .
  from shape show "list_ex (non_memo rt) (instructions tx)"
    by (auto simp: non_memo_def is_memo_def)
next
  assume "POST_transfer_fields rt dflt req' w' = Inr (tx', msg')"
  then have shape: "\<exists>src dst lamports. instructions tx' = [SystemTransfer src dst lamports]"
    by (auto simp: POST_transfer_fields_def
        split: json_body.splits option.splits sum.splits prod.splits if_splits)
  then show "\<exists>src dst lamports. instructions tx' = [SystemTransfer src dst lamports]" .
  from shape show "list_ex (non_memo rt) (instructions tx')"
    by (auto simp: non_memo_def is_memo_def)
qed

text \<open>
  The theorem at \<open>idle_node\<close>: a memo request and a transfer of 1 SOL, each with the draft it
  hands over.
\<close>

theorem drafts_have_a_non_memo_instruction_witness:
  "POST_memo_fields idle_node (request_to [] (Json payer)) 0
     = Some (Inr
         (\<lparr>instructions =
             [SetComputeUnitPrice 1000,
              TransactionInstruction
                (PubKey 2392886213181616158119155895008144928703734678198593441007149093687784719501)
                ''initial message'' []],
           feePayer = Some (PubKey 0),
           recentBlockhash = Some ''EkSnNWid2cvwEVnVx9aBqawnmiCNiDgp3gUdkDPTKN1N''\<rparr>,
          ''Post this memo on-chain''))
   \<and> list_ex (non_memo idle_node)
        [SetComputeUnitPrice 1000,
         TransactionInstruction
           (PubKey 2392886213181616158119155895008144928703734678198593441007149093687784719501)
           ''initial message'' []]
   \<and> POST_transfer_fields idle_node default_key
        (request_to [(''amount'', ''1'')] (Json payer)) 0
     = Inr
         (\<lparr>instructions = [SystemTransfer (PubKey 0) default_key (Fin 1000000000)],
           feePayer = Some (PubKey 0),
           recentBlockhash = Some ''EkSnNWid2cvwEVnVx9aBqawnmiCNiDgp3gUdkDPTKN1N''\<rparr>,
          ''Send 1 SOL to AEzZqXyPxWJrjrauScDWMyewnWhv6XwmwqGdXD5vDVd4'')
   \<and> list_ex (non_memo idle_node) [SystemTransfer (PubKey 0) default_key (Fin 1000000000)]"
proof -
  let ?memo_key = "PubKey 2392886213181616158119155895008144928703734678198593441007149093687784719501"
  let ?memo_draft = "\<lparr>instructions =
                 [SetComputeUnitPrice 1000, TransactionInstruction ?memo_key ''initial message'' []],
               feePayer = Some (PubKey 0),
               recentBlockhash = Some ''EkSnNWid2cvwEVnVx9aBqawnmiCNiDgp3gUdkDPTKN1N''\<rparr>"
  let ?transfer_draft = "\<lparr>instructions = [SystemTransfer (PubKey 0) default_key (Fin 1000000000)],
             feePayer = Some (PubKey 0),
             recentBlockhash = Some ''EkSnNWid2cvwEVnVx9aBqawnmiCNiDgp3gUdkDPTKN1N''\<rparr>"
  have k: "PublicKey_new idle_node payer = Some (PubKey 0)"
    by (simp add: idle_node_def node_def payer_def bs58_PublicKey_def base58_alphabet_def
        byte_length.simps)
  have c: "Connection_throws idle_node = None"
    by (simp add: idle_node_def node_def)
  have placeholder: "PublicKey_new idle_node ''YOUR_ACCOUNT_OR_PROGRAM_PUBLIC_KEY'' = None"
    by (simp add: idle_node_def node_def bs58_PublicKey_def base58_alphabet_def)
  have memo_key: "PublicKey_new idle_node (MEMO_PROGRAM_ID idle_node) = Some ?memo_key"
    by (simp add: idle_node_def node_def bs58_PublicKey_def base58_alphabet_def
        byte_length.simps)
  have bh: "getLatestBlockhash idle_node 0
      = (Inr ''EkSnNWid2cvwEVnVx9aBqawnmiCNiDgp3gUdkDPTKN1N'', 0)"
    by (simp add: idle_node_def node_def)
  have memo: "POST_memo_fields idle_node (request_to [] (Json payer)) 0
     = Some (Inr (?memo_draft, ''Post this memo on-chain''))"
    by (simp add: POST_memo_fields_def request_to_def k c checkForMessage_def placeholder
        memo_key bh messageResult_def)
  have v: "validatedQueryParams idle_node default_key
      (url (request_to [(''amount'', ''1'')] (Json payer)))
      = Inr \<lparr>amount = Fin 1, toPubkey = default_key\<rparr>"
    by (simp add: validatedQueryParams_def request_to_def searchParams_get_def idle_node_def
        node_def dec_parseFloat_def unsigned_literal_def is_digit_def)
  have j: "json (request_to [(''amount'', ''1'')] (Json payer)) = Json payer"
    by (simp add: request_to_def)
  have m: "getMinimumBalanceForRentExemption idle_node 0 0 = (Inr (Fin 890880), 0)"
    by (simp add: idle_node_def node_def)
  have l: "times idle_node (Fin 1) (LAMPORTS_PER_SOL idle_node) = Fin 1000000000"
    by (simp add: idle_node_def node_def exact_times_def)
  have ok: "SystemProgram_transfer_throws idle_node (Fin 1000000000) = None"
    by (simp add: idle_node_def node_def BigInt_rejects_def)
  have dest: "toBase58 idle_node default_key = ''AEzZqXyPxWJrjrauScDWMyewnWhv6XwmwqGdXD5vDVd4''"
    by (simp add: idle_node_def node_def bs58_toBase58_def default_key_def byte_length.simps
        base58_digits.simps base58_alphabet_def)
  have text1: "number_toString idle_node (Fin 1) = ''1''"
    by (simp add: idle_node_def node_def dec_toString_def nat_digits.simps)
  have transfer: "POST_transfer_fields idle_node default_key
        (request_to [(''amount'', ''1'')] (Json payer)) 0
     = Inr (?transfer_draft, ''Send 1 SOL to AEzZqXyPxWJrjrauScDWMyewnWhv6XwmwqGdXD5vDVd4'')"
    by (simp add: POST_transfer_fields_def v j k c m l ok bh dest text1)
  from drafts_have_a_non_memo_instruction
    [of idle_node "request_to [] (Json payer)" 0 ?memo_draft "''Post this memo on-chain''"
        default_key "request_to [(''amount'', ''1'')] (Json payer)" 0 ?transfer_draft
        "''Send 1 SOL to AEzZqXyPxWJrjrauScDWMyewnWhv6XwmwqGdXD5vDVd4''"]
    memo transfer
  have "list_ex (non_memo idle_node)
          [SetComputeUnitPrice 1000, TransactionInstruction ?memo_key ''initial message'' []]"
    and "list_ex (non_memo idle_node) [SystemTransfer (PubKey 0) default_key (Fin 1000000000)]"
    by simp_all
  with memo transfer show ?thesis by simp
qed

section \<open>Headers of the responses\<close>

text \<open>
  C9. Every response of every handler of the two providers, a success or an error of any
  kind, carries the headers \<open>ACTIONS_CORS_HEADERS\<close>.
\<close>

theorem every_response_carries_cors_headers:
  "headers (GET_memo rt req) = ACTIONS_CORS_HEADERS rt
   \<and> headers (OPTIONS_memo rt req) = ACTIONS_CORS_HEADERS rt
   \<and> (POST_memo rt req w = Some r \<longrightarrow> headers r = ACTIONS_CORS_HEADERS rt)
   \<and> headers (GET_transfer rt dflt req) = ACTIONS_CORS_HEADERS rt
   \<and> headers (OPTIONS_transfer rt dflt req) = ACTIONS_CORS_HEADERS rt
   \<and> headers (POST_transfer rt dflt req w) = ACTIONS_CORS_HEADERS rt"
proof -
  have get_memo: "headers (GET_memo rt req) = ACTIONS_CORS_HEADERS rt"
    by (simp add: GET_memo_def Response_json_def)
  have post_memo: "headers r = ACTIONS_CORS_HEADERS rt" if "POST_memo rt req w = Some r"
    using that
    by (auto simp: POST_memo_def POST_memo_fields_def post_response_def createPostResponse_def
        catch_response_def Response_400_def Response_json_def
        split: json_body.splits option.splits sum.splits prod.splits)
  have get_transfer: "headers (GET_transfer rt dflt req) = ACTIONS_CORS_HEADERS rt"
    by (simp add: GET_transfer_def catch_response_def Response_400_def Response_json_def
        Let_def split: sum.splits)
  have post_transfer: "headers (POST_transfer rt dflt req w) = ACTIONS_CORS_HEADERS rt"
    by (simp add: POST_transfer_def POST_transfer_fields_def post_response_def
        createPostResponse_def catch_response_def Response_400_def Response_json_def
        split: json_body.splits option.splits sum.splits prod.splits)
  from get_memo post_memo get_transfer post_transfer show ?thesis
    by (simp add: OPTIONS_memo_def OPTIONS_transfer_def)
qed

text \<open>
  The theorem at \<open>idle_node\<close>, at a \<^verbatim>\<open>POST\<close> to the Memo provider that is answered with the
  error for a malformed account.
\<close>

theorem every_response_carries_cors_headers_witness:
  "POST_memo idle_node (request_to [] (Json ''not-an-account'')) 0
     = Some \<lparr>status = 400, headers = [(''Access-Control-Allow-Origin'', ''*'')],
             body = Text Invalid_account_provided\<rparr>
   \<and> headers \<lparr>status = 400, headers = [(''Access-Control-Allow-Origin'', ''*'')],
               body = Text Invalid_account_provided\<rparr>
     = ACTIONS_CORS_HEADERS idle_node
   \<and> headers (POST_transfer idle_node default_key (request_to [] (Json ''not-an-account'')) 0)
     = ACTIONS_CORS_HEADERS idle_node"
proof -
  let ?req = "request_to [] (Json ''not-an-account'')"
  let ?r = "\<lparr>status = 400, headers = [(''Access-Control-Allow-Origin'', ''*'')],
             body = Text Invalid_account_provided\<rparr>"
  have k: "PublicKey_new idle_node ''not-an-account'' = None"
    by (simp add: idle_node_def node_def bs58_PublicKey_def base58_alphabet_def)
  have cors: "ACTIONS_CORS_HEADERS idle_node = [(''Access-Control-Allow-Origin'', ''*'')]"
    by (simp add: idle_node_def node_def)
  have p: "POST_memo idle_node ?req 0 = Some ?r"
    by (simp add: POST_memo_def POST_memo_fields_def request_to_def k Response_400_def cors)
  from every_response_carries_cors_headers [of idle_node ?req 0 ?r default_key] p
  show ?thesis by simp
qed

section \<open>Metadata of the \<^verbatim>\<open>GET\<close> handlers\<close>

text \<open>The validator reads the query of the URL and nothing else of it.\<close>

lemma validatedQueryParams_query:
  assumes "searchParams u1 = searchParams u2"
  shows "validatedQueryParams rt dflt u1 = validatedQueryParams rt dflt u2"
  unfolding validatedQueryParams_def searchParams_get_def assms by (rule refl)

text \<open>
  C10. The \<^verbatim>\<open>GET\<close> handlers read nothing but the origin and the query of the request: two
  requests with the same origin and the same query get the same response, and two
  requests with the same query get responses that are equal once the icon and the hrefs
  of the actions, the parts built from the origin, are blanked. The metadata of the Memo
  provider has no actions, so there only the icon depends on the origin.
\<close>

theorem GET_depends_on_origin_and_query_only:
  "(origin (url req1) = origin (url req2) \<and> searchParams (url req1) = searchParams (url req2)
      \<longrightarrow> GET_memo rt req1 = GET_memo rt req2
          \<and> GET_transfer rt dflt req1 = GET_transfer rt dflt req2)
   \<and> (searchParams (url req1) = searchParams (url req2)
      \<longrightarrow> without_urls (GET_memo rt req1) = without_urls (GET_memo rt req2)
          \<and> without_urls (GET_transfer rt dflt req1) = without_urls (GET_transfer rt dflt req2))
   \<and> (\<exists>g. body (GET_memo rt req1) = GetJson g
          \<and> icon g = origin (url req1) @ ''/bun_blink.webp''
          \<and> links g = None)"
proof (intro conjI impI)
  assume same: "origin (url req1) = origin (url req2)
                \<and> searchParams (url req1) = searchParams (url req2)"
  then show "GET_memo rt req1 = GET_memo rt req2"
    by (simp add: GET_memo_def)
  from same have o: "origin (url req1) = origin (url req2)"
    by simp
  from same have v: "validatedQueryParams rt dflt (url req1) = validatedQueryParams rt dflt (url req2)"
    by (intro validatedQueryParams_query) simp
  show "GET_transfer rt dflt req1 = GET_transfer rt dflt req2"
    unfolding GET_transfer_def o v by (rule refl)
next
  assume same: "searchParams (url req1) = searchParams (url req2)"
  show "without_urls (GET_memo rt req1) = without_urls (GET_memo rt req2)"
    by (simp add: GET_memo_def without_urls_def Response_json_def)
  from same have v: "validatedQueryParams rt dflt (url req1) = validatedQueryParams rt dflt (url req2)"
    by (rule validatedQueryParams_query)
  show "without_urls (GET_transfer rt dflt req1) = without_urls (GET_transfer rt dflt req2)"
  proof (cases "validatedQueryParams rt dflt (url req2)")
    case (Inl err)
    with v show ?thesis
      by (simp add: GET_transfer_def)
  next
    case (Inr q)
    with v show ?thesis
      by (simp add: GET_transfer_def without_urls_def Response_json_def Let_def)
  qed
next
  show "\<exists>g. body (GET_memo rt req1) = GetJson g
          \<and> icon g = origin (url req1) @ ''/bun_blink.webp''
          \<and> links g = None"
    by (simp add: GET_memo_def Response_json_def URL_toString_def)
qed

text \<open>
  The theorem at \<open>idle_node\<close>: two requests to \<^verbatim>\<open>https://example.org\<close> with the query
  \<^verbatim>\<open>amount=2\<close> and different bodies, and a third with the same query to
  \<^verbatim>\<open>http://localhost:3000\<close>, whose response differs from theirs.
\<close>

theorem GET_depends_on_origin_and_query_only_witness:
  "origin (url (request_to [(''amount'', ''2'')] NotJson))
     = origin (url (request_to [(''amount'', ''2'')] (Json ''x'')))
   \<and> searchParams (url (request_to [(''amount'', ''2'')] NotJson))
     = searchParams (url (request_to [(''amount'', ''2'')] (Json ''x'')))
   \<and> GET_memo idle_node (request_to [(''amount'', ''2'')] NotJson)
     = GET_memo idle_node (request_to [(''amount'', ''2'')] (Json ''x''))
   \<and> GET_transfer idle_node default_key (request_to [(''amount'', ''2'')] NotJson)
     = GET_transfer idle_node default_key (request_to [(''amount'', ''2'')] (Json ''x''))
   \<and> searchParams (url (request_to [(''amount'', ''2'')] NotJson))
     = searchParams (url
         \<lparr>url = \<lparr>origin = ''http://localhost:3000'', pathname = ''/api/actions'',
                  searchParams = [(''amount'', ''2'')]\<rparr>,
          json = NotJson\<rparr>)
   \<and> without_urls (GET_memo idle_node (request_to [(''amount'', ''2'')] NotJson))
     = without_urls (GET_memo idle_node
         \<lparr>url = \<lparr>origin = ''http://localhost:3000'', pathname = ''/api/actions'',
                  searchParams = [(''amount'', ''2'')]\<rparr>,
          json = NotJson\<rparr>)
   \<and> without_urls (GET_transfer idle_node default_key
         (request_to [(''amount'', ''2'')] NotJson))
     = without_urls (GET_transfer idle_node default_key
         \<lparr>url = \<lparr>origin = ''http://localhost:3000'', pathname = ''/api/actions'',
                  searchParams = [(''amount'', ''2'')]\<rparr>,
          json = NotJson\<rparr>)
   \<and> GET_memo idle_node (request_to [(''amount'', ''2'')] NotJson)
     \<noteq> GET_memo idle_node
         \<lparr>url = \<lparr>origin = ''http://localhost:3000'', pathname = ''/api/actions'',
                  searchParams = [(''amount'', ''2'')]\<rparr>,
          json = NotJson\<rparr>"
proof -
  let ?a = "request_to [(''amount'', ''2'')] NotJson"
  let ?b = "request_to [(''amount'', ''2'')] (Json ''x'')"
  let ?c = "\<lparr>url = \<lparr>origin = ''http://localhost:3000'', pathname = ''/api/actions'',
                  searchParams = [(''amount'', ''2'')]\<rparr>,
          json = NotJson\<rparr>"
  have ab: "origin (url ?a) = origin (url ?b) \<and> searchParams (url ?a) = searchParams (url ?b)"
    by (simp add: request_to_def)
  have ac: "searchParams (url ?a) = searchParams (url ?c)"
    by (simp add: request_to_def)
  have differ: "GET_memo idle_node ?a \<noteq> GET_memo idle_node ?c"
    by (simp add: GET_memo_def Response_json_def URL_toString_def request_to_def)
  from GET_depends_on_origin_and_query_only [of ?a ?b idle_node default_key] ab
  have same: "GET_memo idle_node ?a = GET_memo idle_node ?b"
    "GET_transfer idle_node default_key ?a = GET_transfer idle_node default_key ?b"
    by blast+
  from GET_depends_on_origin_and_query_only [of ?a ?c idle_node default_key] ac
  have blanked: "without_urls (GET_memo idle_node ?a) = without_urls (GET_memo idle_node ?c)"
    "without_urls (GET_transfer idle_node default_key ?a)
      = without_urls (GET_transfer idle_node default_key ?c)"
    by blast+
  from ab ac same blanked differ show ?thesis by blast
qed

end
